theory Spec2Isabelle
  imports Complex_Main "HOL-Library.Sublist"
begin

section \<open>JavaScript values used by the dashboard code\<close>

text \<open>
  The repository is a React front end (App.js, ProjectDetail, AIDashboard, AITaskCard).
  Its decision logic is a handful of pure functions over task and project objects.
  JavaScript numbers are idealised as exact reals (counts as naturals), strings are
  character lists, \<^verbatim>\<open>null\<close>/\<^verbatim>\<open>undefined\<close> is \<open>None\<close>.
\<close>

text \<open>Truthiness of an optional string: \<^verbatim>\<open>null\<close>, \<^verbatim>\<open>undefined\<close> and \<^verbatim>\<open>''\<close> are falsy.\<close>

fun truthy :: "string option \<Rightarrow> bool" where
  "truthy None = False"
| "truthy (Some s) = (s \<noteq> [])"

text \<open>\<^verbatim>\<open>x || d\<close> on an optional string.\<close>

fun or_else :: "string option \<Rightarrow> string \<Rightarrow> string" where
  "or_else None d = d"
| "or_else (Some s) d = (if s = [] then d else s)"

text \<open>
  The value of a \<^verbatim>\<open>due\<close> field as the code sees it: falsy (no due date), a string
  that \<^verbatim>\<open>new Date\<close> cannot parse (its time value is NaN), or a string that parses to
  a time value in milliseconds since the epoch.
\<close>

datatype due_value = NoDue | InvalidDate | DueAt int

section \<open>Tasks and projects\<close>

record task =
  task_id :: int
  title :: string
  description :: "string option"
  assignee :: "string option"
  due :: due_value
  status :: string
  complexity :: "string option"

record project =
  project_id :: int
  name :: string
  members :: "string list"
  tasks :: "task list"

section \<open>App.updateProject and ProjectDetail.addMember\<close>

definition updateProject :: "project \<Rightarrow> project list \<Rightarrow> project list" where
  "updateProject updated projects =
     map (\<lambda>p. if project_id p = project_id updated then updated else p) projects"

text \<open>
  \<open>email\<close> is what \<^verbatim>\<open>prompt\<close> returned (\<open>None\<close> when the dialog was cancelled),
  \<open>project\<close> the project shown by the component, \<open>projects\<close> the application state.
\<close>

definition addMember :: "string option \<Rightarrow> project \<Rightarrow> project list \<Rightarrow> project list" where
  "addMember email project projects =
     (case email of
        None \<Rightarrow> projects
      | Some e \<Rightarrow>
          if e \<noteq> [] \<and> e \<notin> set (members project)
          then updateProject (project\<lparr>members := members project @ [e]\<rparr>) projects
          else projects)"

section \<open>Arithmetic on counts and the numbers shown to the user\<close>

text \<open>
  Counts are naturals and finite JavaScript numbers are idealised as exact reals. A
  quotient of two counts is a finite number, or \<^verbatim>\<open>Infinity\<close> (\<open>n / 0\<close> with \<open>n > 0\<close>), or
  \<^verbatim>\<open>NaN\<close> (\<open>0 / 0\<close>); nothing is thrown.
\<close>

datatype jsreal = Fin real | PosInfinity | NaN_real

definition count_div :: "nat \<Rightarrow> nat \<Rightarrow> jsreal" where
  "count_div a b =
     (if b \<noteq> 0 then Fin (real a / real b)
      else if a \<noteq> 0 then PosInfinity else NaN_real)"

text \<open>\<^verbatim>\<open>x * c\<close> (and \<^verbatim>\<open>x / d\<close> as \<open>c = 1 / d\<close>) for a positive finite constant \<open>c\<close>.\<close>

fun js_scale :: "jsreal \<Rightarrow> real \<Rightarrow> jsreal" where
  "js_scale (Fin x) c = Fin (x * c)"
| "js_scale PosInfinity c = PosInfinity"
| "js_scale NaN_real c = NaN_real"

fun js_add :: "jsreal \<Rightarrow> jsreal \<Rightarrow> jsreal" where
  "js_add (Fin x) (Fin y) = Fin (x + y)"
| "js_add NaN_real y = NaN_real"
| "js_add x NaN_real = NaN_real"
| "js_add x y = PosInfinity"

text \<open>\<^verbatim>\<open>Math.min(m, x)\<close> for a finite \<open>m\<close>.\<close>

fun js_min :: "real \<Rightarrow> jsreal \<Rightarrow> jsreal" where
  "js_min m (Fin x) = Fin (min m x)"
| "js_min m PosInfinity = Fin m"
| "js_min m NaN_real = NaN_real"

text \<open>\<^verbatim>\<open>x < c\<close> and \<^verbatim>\<open>x > c\<close> for a finite \<open>c\<close>; every comparison with NaN is false.\<close>

fun js_less :: "jsreal \<Rightarrow> real \<Rightarrow> bool" where
  "js_less (Fin x) c = (x < c)"
| "js_less PosInfinity c = False"
| "js_less NaN_real c = False"

fun js_greater :: "jsreal \<Rightarrow> real \<Rightarrow> bool" where
  "js_greater (Fin x) c = (x > c)"
| "js_greater PosInfinity c = True"
| "js_greater NaN_real c = False"

text \<open>
  \<^verbatim>\<open>x.toFixed(1)\<close> of a finite \<open>x\<close> (of magnitude below \<open>10^21\<close>) is the decimal string of
  \<open>n / 10\<close> for the integer \<open>n\<close> closest to \<open>10 * x\<close>, the larger one on a tie; a negative
  \<open>x\<close> is formatted as the negation of \<open>-x\<close>. That string is represented by \<open>n\<close>, its
  number of tenths. The other two strings are \<^verbatim>\<open>"Infinity"\<close> and \<^verbatim>\<open>"NaN"\<close>.
\<close>

datatype fixed1 = Tenths int | InfinityStr | NaNStr

fun toFixed1 :: "jsreal \<Rightarrow> fixed1" where
  "toFixed1 (Fin x) =
     Tenths (if x < 0 then - \<lfloor>- x * 10 + 1 / 2\<rfloor> else \<lfloor>x * 10 + 1 / 2\<rfloor>)"
| "toFixed1 PosInfinity = InfinityStr"
| "toFixed1 NaN_real = NaNStr"

text \<open>
  A field that holds either a number or a \<^verbatim>\<open>toFixed(1)\<close> string, and the finite number
  it denotes, if any.
\<close>

datatype shown = Number real | Fixed fixed1

fun shown_value :: "shown \<Rightarrow> real option" where
  "shown_value (Number r) = Some r"
| "shown_value (Fixed (Tenths n)) = Some (real_of_int n / 10)"
| "shown_value (Fixed InfinityStr) = None"
| "shown_value (Fixed NaNStr) = None"

text \<open>Decimal rendering of a count inside a template literal.\<close>

definition digit_char :: "nat \<Rightarrow> char" where
  "digit_char d = ''0123456789'' ! d"

function show_nat :: "nat \<Rightarrow> string" where
  "show_nat n = (if n < 10 then [digit_char n] else show_nat (n div 10) @ [digit_char (n mod 10)])"
  by pat_completeness auto
termination
  by (relation "measure id") auto

declare show_nat.simps [simp del]

section \<open>AITaskCard.getDaysLeft\<close>

definition msPerDay :: int where
  "msPerDay = 1000 * 60 * 60 * 24"

datatype days_left = Null | NotANumber | Days int

text \<open>
  \<open>today\<close> is the time value of \<^verbatim>\<open>new Date()\<close>, the current instant in milliseconds.
  \<^verbatim>\<open>Math.ceil\<close> of a quotient in \<open>(-1, 0]\<close> is the negative zero, which is the integer 0 here.
\<close>

definition getDaysLeft :: "int \<Rightarrow> due_value \<Rightarrow> days_left" where
  "getDaysLeft today dueDate =
     (case dueDate of
        NoDue \<Rightarrow> Null
      | InvalidDate \<Rightarrow> NotANumber
      | DueAt d \<Rightarrow> Days \<lceil>real_of_int (d - today) / real_of_int msPerDay\<rceil>)"

text \<open>
  The calendar day (in UTC) of a time value, and the whole-day difference "due - today"
  of the specification: a date-only comparison that ignores the time of day of both.
\<close>

definition day_of :: "int \<Rightarrow> int" where
  "day_of ms = ms div msPerDay"

definition date_only_diff :: "int \<Rightarrow> int \<Rightarrow> int" where
  "date_only_diff today d = day_of d - day_of today"

section \<open>AIDashboard.generateAIRecommendations\<close>

record recommendation =
  rec_type :: string
  rec_icon :: "nat list"
  rec_title :: string
  rec_description :: string
  rec_action :: string
  rec_priority :: string

text \<open>
  The local constants of the function, each under its own name. Every \<^verbatim>\<open>new Date()\<close>
  of one run is taken at the same instant \<open>today\<close>.
\<close>

definition highPriorityTasks_R :: "'a task_scheme list \<Rightarrow> nat" where
  "highPriorityTasks_R ts = length (filter (\<lambda>t. status t \<noteq> ''Done'') ts)"

definition overdueTasks :: "int \<Rightarrow> 'a task_scheme list \<Rightarrow> nat" where
  "overdueTasks today ts =
     length (filter (\<lambda>t. case due t of
                            NoDue \<Rightarrow> False
                          | InvalidDate \<Rightarrow> False
                          | DueAt dueDate \<Rightarrow> dueDate < today \<and> status t \<noteq> ''Done'') ts)"

definition completionRate_R :: "'a task_scheme list \<Rightarrow> jsreal" where
  "completionRate_R ts =
     (if length ts > 0
      then js_scale (count_div (length (filter (\<lambda>t. status t = ''Done'') ts)) (length ts)) 100
      else Fin 0)"

definition tasksWithDeadlines :: "'a task_scheme list \<Rightarrow> 'a task_scheme list" where
  "tasksWithDeadlines ts = filter (\<lambda>t. due t \<noteq> NoDue \<and> status t \<noteq> ''Done'') ts"

text \<open>The \<^verbatim>\<open>daysLeft\<close> of the deadline filter: the quotient is not rounded.\<close>

definition daysLeft :: "int \<Rightarrow> int \<Rightarrow> real" where
  "daysLeft today dueDate = real_of_int (dueDate - today) / real_of_int msPerDay"

definition upcomingDeadlines :: "int \<Rightarrow> 'a task_scheme list \<Rightarrow> nat" where
  "upcomingDeadlines today ts =
     length (filter (\<lambda>t. case due t of
                            NoDue \<Rightarrow> False
                          | InvalidDate \<Rightarrow> False
                          | DueAt dueDate \<Rightarrow> daysLeft today dueDate \<le> 3 \<and> daysLeft today dueDate \<ge> 0)
               (tasksWithDeadlines ts))"

text \<open>The elements of the \<^verbatim>\<open>Set\<close> of truthy assignees; only its size is used.\<close>

definition uniqueAssignees :: "'a task_scheme list \<Rightarrow> string option list" where
  "uniqueAssignees ts = remdups (filter truthy (map assignee ts))"

definition avgTasksPerPerson :: "'a task_scheme list \<Rightarrow> jsreal" where
  "avgTasksPerPerson ts = count_div (length ts) (length (uniqueAssignees ts))"

definition overdue_rec :: "nat \<Rightarrow> recommendation" where
  "overdue_rec n =
     \<lparr>rec_type = ''urgent'', rec_icon = [0x1F6A8], rec_title = ''Overdue Tasks Detected'',
      rec_description = show_nat n @
        '' tasks are overdue. AI suggests immediate attention and stakeholder communication.'',
      rec_action = ''Review overdue tasks and update timelines'', rec_priority = ''high''\<rparr>"

definition workload_rec :: recommendation where
  "workload_rec =
     \<lparr>rec_type = ''workload'', rec_icon = [0x2696, 0xFE0F],
      rec_title = ''Workload Distribution Alert'',
      rec_description = ''High number of active tasks detected. AI recommends task prioritization and resource allocation.'',
      rec_action = ''Consider breaking down large tasks or adding team members'',
      rec_priority = ''medium''\<rparr>"

definition productivity_rec :: recommendation where
  "productivity_rec =
     \<lparr>rec_type = ''productivity'', rec_icon = [0x1F4C8],
      rec_title = ''Productivity Optimization'',
      rec_description = ''Low completion rate detected. AI suggests implementing daily standups and task breakdown.'',
      rec_action = ''Break down complex tasks into smaller, manageable pieces'',
      rec_priority = ''medium''\<rparr>"

definition deadline_rec :: "nat \<Rightarrow> recommendation" where
  "deadline_rec n =
     \<lparr>rec_type = ''deadline'', rec_icon = [0x23F0], rec_title = ''Upcoming Deadlines'',
      rec_description = show_nat n @
        '' tasks have deadlines within 3 days. AI recommends focused attention.'',
      rec_action = ''Prioritize tasks with imminent deadlines'', rec_priority = ''high''\<rparr>"

definition collaboration_rec :: recommendation where
  "collaboration_rec =
     \<lparr>rec_type = ''collaboration'', rec_icon = [0x1F465],
      rec_title = ''Team Collaboration Opportunity'',
      rec_description = ''AI detects potential for better task distribution and cross-team collaboration.'',
      rec_action = ''Consider redistributing tasks or adding more team members'',
      rec_priority = ''low''\<rparr>"

definition success_rec :: recommendation where
  "success_rec =
     \<lparr>rec_type = ''success'', rec_icon = [0x1F389],
      rec_title = ''Excellent Project Management'',
      rec_description = ''AI analysis shows healthy project metrics. Keep up the great work!'',
      rec_action = ''Continue current practices and consider expanding the project scope'',
      rec_priority = ''low''\<rparr>"

definition generateAIRecommendations :: "int \<Rightarrow> 'a task_scheme list \<Rightarrow> recommendation list" where
  "generateAIRecommendations today ts =
     (let recommendations = [];
          recommendations =
            (if overdueTasks today ts > 0
             then recommendations @ [overdue_rec (overdueTasks today ts)]
             else recommendations);
          recommendations =
            (if highPriorityTasks_R ts > 5
             then recommendations @ [workload_rec] else recommendations);
          recommendations =
            (if js_less (completionRate_R ts) 30
             then recommendations @ [productivity_rec] else recommendations);
          recommendations =
            (if upcomingDeadlines today ts > 0
             then recommendations @ [deadline_rec (upcomingDeadlines today ts)]
             else recommendations);
          recommendations =
            (if length (uniqueAssignees ts) > 0
             then (if js_greater (avgTasksPerPerson ts) 3
                   then recommendations @ [collaboration_rec] else recommendations)
             else recommendations);
          recommendations =
            (if length recommendations = 0
             then recommendations @ [success_rec] else recommendations)
      in recommendations)"

section \<open>AIDashboard.generateProductivityInsights\<close>

text \<open>Case conversion of the ASCII letters; other characters are left as they are.\<close>

definition lower_char :: "char \<Rightarrow> char" where
  "lower_char c =
     (if (65::nat) \<le> of_char c \<and> of_char c \<le> (90::nat)
      then char_of (of_char c + (32::nat)) else c)"

definition toLowerCase :: "string \<Rightarrow> string" where
  "toLowerCase s = map lower_char s"

text \<open>\<^verbatim>\<open>s.includes(w)\<close>: \<open>w\<close> occurs in \<open>s\<close> as a contiguous run.\<close>

definition includes_str :: "string \<Rightarrow> string \<Rightarrow> bool" where
  "includes_str s w = sublist w s"

definition completionRate_P :: "'a task_scheme list \<Rightarrow> jsreal" where
  "completionRate_P ts =
     (if length ts > 0
      then js_scale (count_div (length (filter (\<lambda>t. status t = ''Done'') ts)) (length ts)) 100
      else Fin 0)"

definition progressRate_P :: "'a task_scheme list \<Rightarrow> jsreal" where
  "progressRate_P ts =
     (if length ts > 0
      then js_scale
             (count_div (length (filter (\<lambda>t. status t = ''Done'') ts)
                         + length (filter (\<lambda>t. status t = ''In Progress'') ts))
                (length ts)) 100
      else Fin 0)"

definition complexTasks_P :: "'a task_scheme list \<Rightarrow> 'a task_scheme list" where
  "complexTasks_P ts =
     filter (\<lambda>t. let desc = or_else (description t) [] in
                  length desc > 100 \<or>
                  includes_str (toLowerCase desc) ''complex'' \<or>
                  includes_str (toLowerCase desc) ''difficult'' \<or>
                  includes_str (toLowerCase desc) ''challenging'') ts"

record productivity =
  completionRate_str :: fixed1
  progressRate_str :: fixed1
  complexTasks :: nat
  avgTaskComplexity :: shown
  productivityScore :: fixed1

definition generateProductivityInsights :: "'a task_scheme list \<Rightarrow> productivity" where
  "generateProductivityInsights ts =
     \<lparr>completionRate_str = toFixed1 (completionRate_P ts),
      progressRate_str = toFixed1 (progressRate_P ts),
      complexTasks = length (complexTasks_P ts),
      avgTaskComplexity =
        (if length ts > 0
         then Fixed (toFixed1 (js_scale (count_div (length (complexTasks_P ts)) (length ts)) 100))
         else Number 0),
      productivityScore =
        toFixed1 (js_min 100
          (js_scale (js_add (completionRate_P ts) (progressRate_P ts)) (1 / 2)))\<rparr>"

section \<open>Responses of the insight service\<close>

text \<open>
  \<^verbatim>\<open>getAIInsights\<close> posts a request and returns the response body, or throws. Of the
  response only \<^verbatim>\<open>priority.priority\<close>, \<^verbatim>\<open>deadline.risk_level\<close> and
  \<^verbatim>\<open>deadline.recommendations\<close> are read by the dashboard; every level may be missing.
\<close>

record priority_result =
  priority_label :: "string option"

record deadline_risk =
  risk_level :: "string option"
  recommendations :: "string list option"

record ai_insight =
  priority :: "priority_result option"
  deadline :: "deadline_risk option"

datatype api_error = NetworkError | HttpError nat

text \<open>
  The service is a parameter: the outcome of the request made for the task at position
  \<open>i\<close> of the list, given title, description, due date and complexity.
\<close>

type_synonym fetcher = "nat \<Rightarrow> string \<Rightarrow> string \<Rightarrow> due_value \<Rightarrow> string \<Rightarrow> api_error + ai_insight"

text \<open>\<^verbatim>\<open>insight?.priority?.priority\<close> and \<^verbatim>\<open>insight?.deadline?.risk_level\<close>.\<close>

definition priority_of :: "ai_insight option \<Rightarrow> string option" where
  "priority_of i =
     (case i of None \<Rightarrow> None
      | Some x \<Rightarrow> (case priority x of None \<Rightarrow> None | Some p \<Rightarrow> priority_label p))"

definition risk_level_of :: "ai_insight option \<Rightarrow> string option" where
  "risk_level_of i =
     (case i of None \<Rightarrow> None
      | Some x \<Rightarrow> (case deadline x of None \<Rightarrow> None | Some d \<Rightarrow> risk_level d))"

section \<open>Plain objects used as counters\<close>

text \<open>
  An object literal is kept as the list of its own properties in insertion order.
  Assigning to \<^verbatim>\<open>__proto__\<close> a value that is not an object creates no property.
\<close>

definition set_prop :: "(string \<times> 'v) list \<Rightarrow> string \<Rightarrow> 'v \<Rightarrow> (string \<times> 'v) list" where
  "set_prop obj k v =
     (if k = ''__proto__'' then obj
      else (case map_of obj k of
              None \<Rightarrow> obj @ [(k, v)]
            | Some _ \<Rightarrow> map (\<lambda>(k', v'). if k' = k then (k', v) else (k', v')) obj))"

datatype jsnum = Num nat | NaN

text \<open>
  \<^verbatim>\<open>obj[k]++\<close>: a numeric property is incremented; anything else (a missing or an
  inherited property) converts to NaN, which is stored.
\<close>

definition increment :: "(string \<times> jsnum) list \<Rightarrow> string \<Rightarrow> (string \<times> jsnum) list" where
  "increment obj k =
     set_prop obj k (case map_of obj k of Some (Num n) \<Rightarrow> Num (n + 1) | _ \<Rightarrow> NaN)"

text \<open>One step of a histogram loop, for either field.\<close>

definition count_label :: "(string \<times> jsnum) list \<Rightarrow> string option \<Rightarrow> (string \<times> jsnum) list" where
  "count_label counts l =
     (case l of None \<Rightarrow> counts | Some s \<Rightarrow> if s \<noteq> [] then increment counts s else counts)"

section \<open>AIDashboard.generateSummaryInsights\<close>

record named_task = task +
  projectName :: string

record task_insight =
  task :: named_task
  insight :: "ai_insight option"

record summary_insights =
  totalTasks :: nat
  completedTasks :: nat
  inProgressTasks :: nat
  todoTasks :: nat
  completionRate :: shown
  priorityCounts :: "(string \<times> jsnum) list"
  riskCounts :: "(string \<times> jsnum) list"
  highRiskTasks :: nat
  highPriorityTasks :: nat
  urgentTasks :: nat

definition count_priority :: "(string \<times> jsnum) list \<Rightarrow> task_insight \<Rightarrow> (string \<times> jsnum) list" where
  "count_priority counts ti =
     (case priority_of (insight ti) of
        None \<Rightarrow> counts
      | Some l \<Rightarrow> if l \<noteq> [] then increment counts l else counts)"

definition count_risk :: "(string \<times> jsnum) list \<Rightarrow> task_insight \<Rightarrow> (string \<times> jsnum) list" where
  "count_risk counts ti =
     (case risk_level_of (insight ti) of
        None \<Rightarrow> counts
      | Some l \<Rightarrow> if l \<noteq> [] then increment counts l else counts)"

definition generateSummaryInsights :: "task_insight list \<Rightarrow> summary_insights" where
  "generateSummaryInsights tis =
     (let total = length tis;
          completed = length (filter (\<lambda>t. status (task t) = ''Done'') tis);
          inProgress = length (filter (\<lambda>t. status (task t) = ''In Progress'') tis);
          todo = length (filter (\<lambda>t. status (task t) = ''To-Do'') tis);
          pCounts = foldl count_priority
                      [(''high'', Num 0), (''medium'', Num 0), (''low'', Num 0)] tis;
          rCounts = foldl count_risk
                      [(''overdue'', Num 0), (''critical'', Num 0), (''high'', Num 0),
                       (''medium'', Num 0), (''low'', Num 0)] tis;
          highRisk = filter (\<lambda>ti. risk_level_of (insight ti) = Some ''overdue'' \<or>
                                   risk_level_of (insight ti) = Some ''critical'') tis;
          highPriority = filter (\<lambda>ti. priority_of (insight ti) = Some ''high'') tis
      in \<lparr>totalTasks = total,
          completedTasks = completed,
          inProgressTasks = inProgress,
          todoTasks = todo,
          completionRate =
            (if total > 0 then Fixed (toFixed1 (js_scale (count_div completed total) 100))
             else Number 0),
          priorityCounts = pCounts,
          riskCounts = rCounts,
          highRiskTasks = length highRisk,
          highPriorityTasks = length highPriority,
          urgentTasks = length highRisk + length highPriority\<rparr>)"

section \<open>AIDashboard.generateProjectInsights\<close>

definition allTasks_named :: "project list \<Rightarrow> named_task list" where
  "allTasks_named projects =
     concat (map (\<lambda>project.
       map (\<lambda>t. \<lparr>task_id = task_id t, title = title t, description = description t,
                  assignee = assignee t, due = due t, status = status t,
                  complexity = complexity t, projectName = name project\<rparr>)
           (tasks project)) projects)"

text \<open>
  One request per task; a request that throws is caught inside the task's own callback
  and recorded as a null insight. \<^verbatim>\<open>Promise.all\<close> keeps the order of the tasks.
\<close>

definition resolve_insight :: "fetcher \<Rightarrow> nat \<times> named_task \<Rightarrow> task_insight" where
  "resolve_insight fetch it =
     (case it of (i, t) \<Rightarrow>
        (case fetch i (title t) (or_else (description t) []) (due t)
                (or_else (complexity t) ''medium'') of
           Inr x \<Rightarrow> \<lparr>task = t, insight = Some x\<rparr>
         | Inl e \<Rightarrow> \<lparr>task = t, insight = None\<rparr>))"

record insights_state =
  taskInsights :: "task_insight list"
  summary :: summary_insights

section \<open>AIDashboard.generateRiskAlerts\<close>

record located_task = named_task +
  projectId :: int

record alert =
  alert_type :: string
  severity :: string
  alert_task :: located_task
  message :: string
  recommendation :: string

text \<open>\<^verbatim>\<open>insight.deadline?.recommendations?.[0] || d\<close>.\<close>

definition first_recommendation :: "ai_insight \<Rightarrow> string \<Rightarrow> string" where
  "first_recommendation i d =
     (case deadline i of
        None \<Rightarrow> d
      | Some dl \<Rightarrow>
          (case recommendations dl of
             None \<Rightarrow> d
           | Some [] \<Rightarrow> d
           | Some (r # _) \<Rightarrow> if r = [] then d else r))"

definition quoted :: "string \<Rightarrow> string" where
  "quoted s = [CHR 0x22] @ s @ [CHR 0x22]"

definition task_alerts :: "fetcher \<Rightarrow> nat \<times> located_task \<Rightarrow> alert list" where
  "task_alerts fetch it =
     (case it of (i, t) \<Rightarrow>
        if status t = ''Done'' then []
        else
          (case fetch i (title t) (or_else (description t) []) (due t) ''medium'' of
             Inl e \<Rightarrow> []
           | Inr x \<Rightarrow>
               (if risk_level_of (Some x) = Some ''overdue''
                then [\<lparr>alert_type = ''overdue'', severity = ''critical'', alert_task = t,
                       message = ''Task '' @ quoted (title t) @ '' is overdue'',
                       recommendation = first_recommendation x ''Immediate action required''\<rparr>]
                else if risk_level_of (Some x) = Some ''critical''
                then [\<lparr>alert_type = ''critical'', severity = ''high'', alert_task = t,
                       message = ''Task '' @ quoted (title t) @ '' has critical deadline risk'',
                       recommendation = first_recommendation x ''Urgent attention needed''\<rparr>]
                else [])
               @
               (if priority_of (Some x) = Some ''high''
                then [\<lparr>alert_type = ''priority'', severity = ''medium'', alert_task = t,
                       message = ''High priority task '' @ quoted (title t) @ '' needs attention'',
                       recommendation = ''Focus resources on this high-impact task''\<rparr>]
                else [])))"

definition generateRiskAlerts :: "fetcher \<Rightarrow> located_task list \<Rightarrow> alert list" where
  "generateRiskAlerts fetch ts = concat (map (task_alerts fetch) (enumerate 0 ts))"

section \<open>AIDashboard.generateTeamInsights\<close>

text \<open>
  \<^verbatim>\<open>Object.keys\<close> lists the own properties that are array indices (canonical decimal
  strings below \<open>2^32 - 1\<close>) in ascending numeric order, then the other string keys in
  insertion order.
\<close>

definition is_digit :: "char \<Rightarrow> bool" where
  "is_digit c = (c \<in> set ''0123456789'')"

definition parse_nat :: "string \<Rightarrow> nat" where
  "parse_nat s = foldl (\<lambda>n c. 10 * n + (of_char c - 48)) 0 s"

definition is_array_index :: "string \<Rightarrow> bool" where
  "is_array_index s =
     (s \<noteq> [] \<and> list_all is_digit s \<and> (s = ''0'' \<or> hd s \<noteq> CHR ''0'') \<and>
      parse_nat s < 4294967295)"

definition object_keys :: "(string \<times> 'v) list \<Rightarrow> string list" where
  "object_keys obj =
     sort_key parse_nat (filter is_array_index (map fst obj))
     @ filter (\<lambda>k. \<not> is_array_index k) (map fst obj)"

text \<open>
  The names every plain object inherits from \<^verbatim>\<open>Object.prototype\<close>. Reading such a
  name from a counter object that has no own property of that name yields the inherited
  value instead of \<^verbatim>\<open>undefined\<close>; the model of the member counters below covers the
  member identifiers outside this list.
\<close>

definition inherited_names :: "string list" where
  "inherited_names =
     [''__proto__'', ''constructor'', ''hasOwnProperty'', ''isPrototypeOf'',
      ''propertyIsEnumerable'', ''toLocaleString'', ''toString'', ''valueOf'',
      ''__defineGetter__'', ''__defineSetter__'', ''__lookupGetter__'', ''__lookupSetter__'']"

definition plain_members :: "project list \<Rightarrow> bool" where
  "plain_members projects =
     list_all (\<lambda>p. list_all (\<lambda>m. m \<notin> set inherited_names) (members p)) projects"

record team_acc =
  allMembers :: "string list"
  memberTaskCounts :: "(string \<times> nat) list"
  projectCounts :: "(string \<times> nat) list"

text \<open>\<^verbatim>\<open>set.add(x)\<close> on a \<^verbatim>\<open>Set\<close> kept as the list of its elements.\<close>

definition set_add :: "string list \<Rightarrow> string \<Rightarrow> string list" where
  "set_add s x = (if x \<in> set s then s else s @ [x])"

text \<open>\<^verbatim>\<open>counts[k] || 0\<close> on an object of numbers, for a name \<open>k\<close> that is not inherited.\<close>

definition count_of :: "(string \<times> nat) list \<Rightarrow> string \<Rightarrow> nat" where
  "count_of counts k = (case map_of counts k of None \<Rightarrow> 0 | Some c \<Rightarrow> c)"

text \<open>\<^verbatim>\<open>project.tasks.filter(t => t.assignee === member).length\<close>.\<close>

definition assigned :: "project \<Rightarrow> string \<Rightarrow> nat" where
  "assigned p m = length (filter (\<lambda>t. assignee t = Some m) (tasks p))"

text \<open>The body of the inner \<^verbatim>\<open>forEach\<close> over the members of one project.\<close>

definition count_member :: "project \<Rightarrow> team_acc \<Rightarrow> string \<Rightarrow> team_acc" where
  "count_member project acc member =
     acc\<lparr>allMembers := set_add (allMembers acc) member,
         memberTaskCounts :=
           set_prop (memberTaskCounts acc) member
             (count_of (memberTaskCounts acc) member + assigned project member)\<rparr>"

text \<open>The body of the outer \<^verbatim>\<open>forEach\<close> over the projects.\<close>

definition count_project :: "team_acc \<Rightarrow> project \<Rightarrow> team_acc" where
  "count_project acc project =
     (let acc' = foldl (count_member project) acc (members project)
      in acc'\<lparr>projectCounts :=
                set_prop (projectCounts acc') (name project) (length (tasks project))\<rparr>)"

definition team_counts :: "project list \<Rightarrow> team_acc" where
  "team_counts projects =
     foldl count_project \<lparr>allMembers = [], memberTaskCounts = [], projectCounts = []\<rparr> projects"

text \<open>\<^verbatim>\<open>counts[a] > counts[b]\<close>; a missing property is \<^verbatim>\<open>undefined\<close> and compares false.\<close>

fun count_gt :: "nat option \<Rightarrow> nat option \<Rightarrow> bool" where
  "count_gt (Some x) (Some y) = (x > y)"
| "count_gt _ _ = False"

definition most_active :: "(string \<times> nat) list \<Rightarrow> string list \<Rightarrow> string" where
  "most_active counts keys =
     foldl (\<lambda>a b. if count_gt (map_of counts a) (map_of counts b) then a else b) ''None'' keys"

record team_insights =
  totalMembers :: nat
  avgTasksPerMember :: fixed1
  mostActiveMember :: string
  projectDistribution :: "(string \<times> nat) list"

definition generateTeamInsights :: "project list \<Rightarrow> team_insights" where
  "generateTeamInsights projects =
     (let acc = team_counts projects;
          total = length (allMembers acc);
          avg = (if total > 0
                 then count_div (foldl (\<lambda>a b. a + b) 0 (map snd (memberTaskCounts acc))) total
                 else Fin 0)
      in \<lparr>totalMembers = total,
          avgTasksPerMember = toFixed1 avg,
          mostActiveMember =
            most_active (memberTaskCounts acc) (object_keys (memberTaskCounts acc)),
          projectDistribution = projectCounts acc\<rparr>)"

section \<open>The dashboard state and its two entry points\<close>

record dashboard =
  loading :: bool
  insights :: "insights_state option"
  aiRecommendations :: "recommendation list"
  riskAlerts :: "alert list"
  productivityInsights :: "productivity option"
  teamInsights :: "team_insights option"

text \<open>The initial values of the component's state variables.\<close>

definition initial_dashboard :: dashboard where
  "initial_dashboard =
     \<lparr>loading = False, insights = None, aiRecommendations = [], riskAlerts = [],
      productivityInsights = None, teamInsights = None\<rparr>"

text \<open>A service that is unreachable: every request throws.\<close>

definition offline :: fetcher where
  "offline i t d dd c = Inl NetworkError"

text \<open>
  Both entry points wrap their body in \<^verbatim>\<open>try\<close>/\<^verbatim>\<open>catch\<close>; the \<^verbatim>\<open>catch\<close> only logs.
  No statement of either body throws on task and project objects of the types above
  (the requests that may throw are caught per task), and neither body inspects task
  ids, so each run ends by storing its results.
\<close>

definition generateProjectInsights :: "fetcher \<Rightarrow> project list \<Rightarrow> dashboard \<Rightarrow> dashboard" where
  "generateProjectInsights fetch projects st =
     (let st = st\<lparr>loading := True\<rparr>;
          allTasks = allTasks_named projects;
          tis = map (resolve_insight fetch) (enumerate 0 allTasks);
          st = st\<lparr>insights := Some \<lparr>taskInsights = tis, summary = generateSummaryInsights tis\<rparr>\<rparr>
      in st\<lparr>loading := False\<rparr>)"

definition allTasks_located :: "project list \<Rightarrow> located_task list" where
  "allTasks_located projects =
     concat (map (\<lambda>project.
       map (\<lambda>t. \<lparr>task_id = task_id t, title = title t, description = description t,
                  assignee = assignee t, due = due t, status = status t,
                  complexity = complexity t, projectName = name project,
                  projectId = project_id project\<rparr>)
           (tasks project)) projects)"

definition generateAdvancedAIInsights ::
    "int \<Rightarrow> fetcher \<Rightarrow> project list \<Rightarrow> dashboard \<Rightarrow> dashboard" where
  "generateAdvancedAIInsights today fetch projects st =
     (let allTasks = allTasks_located projects;
          st = st\<lparr>aiRecommendations := generateAIRecommendations today allTasks\<rparr>;
          st = st\<lparr>riskAlerts := generateRiskAlerts fetch allTasks\<rparr>;
          st = st\<lparr>productivityInsights := Some (generateProductivityInsights allTasks)\<rparr>;
          st = st\<lparr>teamInsights := Some (generateTeamInsights projects)\<rparr>
      in st)"

text \<open>
  The invariants of the data model as the specification words them: task ids unique
  within a project, member lists free of duplicates, project ids unique. The code
  contains no such check.
\<close>

definition valid_project :: "project \<Rightarrow> bool" where
  "valid_project p = (distinct (map task_id (tasks p)) \<and> distinct (members p))"

definition valid_projects :: "project list \<Rightarrow> bool" where
  "valid_projects projects =
     (distinct (map project_id projects) \<and> list_all valid_project projects)"

section \<open>Recommendations\<close>

lemma due_case_ex:
  "(case dv of NoDue \<Rightarrow> False | InvalidDate \<Rightarrow> False | DueAt x \<Rightarrow> P x)
     = (\<exists>d. dv = DueAt d \<and> P d)"
  by (cases dv) auto

lemma overdueTasks_pos:
  "(overdueTasks today ts > 0) =
     (\<exists>t \<in> set ts. \<exists>d. due t = DueAt d \<and> d < today \<and> status t \<noteq> ''Done'')"
proof -
  have "(overdueTasks today ts > 0) =
      (\<exists>t \<in> set ts. case due t of NoDue \<Rightarrow> False | InvalidDate \<Rightarrow> False
                        | DueAt dueDate \<Rightarrow> dueDate < today \<and> status t \<noteq> ''Done'')"
    unfolding overdueTasks_def by (simp add: filter_empty_conv)
  also have "\<dots> = (\<exists>t \<in> set ts. \<exists>d. due t = DueAt d \<and> d < today \<and> status t \<noteq> ''Done'')"
    by (simp add: due_case_ex)
  finally show ?thesis .
qed

lemma upcomingDeadlines_pos:
  "(upcomingDeadlines today ts > 0) =
     (\<exists>t \<in> set ts. \<exists>d. due t = DueAt d \<and> status t \<noteq> ''Done'' \<and>
         0 \<le> daysLeft today d \<and> daysLeft today d \<le> 3)"
proof -
  have "(upcomingDeadlines today ts > 0) =
      (\<exists>t \<in> set (tasksWithDeadlines ts). case due t of NoDue \<Rightarrow> False | InvalidDate \<Rightarrow> False
                        | DueAt dueDate \<Rightarrow> daysLeft today dueDate \<le> 3 \<and> daysLeft today dueDate \<ge> 0)"
    unfolding upcomingDeadlines_def by (simp add: filter_empty_conv)
  also have "\<dots> = (\<exists>t \<in> set ts. \<exists>d. due t = DueAt d \<and> status t \<noteq> ''Done'' \<and>
         0 \<le> daysLeft today d \<and> daysLeft today d \<le> 3)"
    unfolding tasksWithDeadlines_def by (auto simp: due_case_ex)
  finally show ?thesis .
qed

lemma size_uniqueAssignees:
  "length (uniqueAssignees ts) = card {a \<in> assignee ` set ts. truthy a}"
proof -
  have "set (filter truthy (map assignee ts)) = {a \<in> assignee ` set ts. truthy a}"
    by auto
  then show ?thesis
    unfolding uniqueAssignees_def by (simp add: length_remdups_card_conv)
qed

lemma count_div_greater:
  "(0 < n \<and> js_greater (count_div k n) c) = (0 < n \<and> c < real k / real n)"
  by (simp add: count_div_def)

lemma success_rec_distinct:
  "overdue_rec n \<noteq> success_rec" "workload_rec \<noteq> success_rec"
  "productivity_rec \<noteq> success_rec" "deadline_rec n \<noteq> success_rec"
  "collaboration_rec \<noteq> success_rec"
  by (simp_all add: overdue_rec_def workload_rec_def productivity_rec_def deadline_rec_def
      collaboration_rec_def success_rec_def)

lemma generateAIRecommendations_cases:
  "generateAIRecommendations today ts =
    (let rs = (if overdueTasks today ts > 0 then [overdue_rec (overdueTasks today ts)] else [])
            @ (if highPriorityTasks_R ts > 5 then [workload_rec] else [])
            @ (if js_less (completionRate_R ts) 30 then [productivity_rec] else [])
            @ (if upcomingDeadlines today ts > 0 then [deadline_rec (upcomingDeadlines today ts)] else [])
            @ (if length (uniqueAssignees ts) > 0 \<and> js_greater (avgTasksPerPerson ts) 3
               then [collaboration_rec] else [])
     in if rs = [] then [success_rec] else rs)"
  unfolding generateAIRecommendations_def Let_def by simp

lemmas rec_defs = generateAIRecommendations_def overdueTasks_def highPriorityTasks_R_def
  completionRate_R_def upcomingDeadlines_def tasksWithDeadlines_def daysLeft_def
  uniqueAssignees_def avgTasksPerPerson_def msPerDay_def count_div_def

text \<open>
  C1. The recommendation generator returns at least one recommendation, and it returns
  exactly the single default low-priority recommendation if and only if none of the five
  triggers holds: an overdue task exists, more than 5 tasks are not Done, the completion
  rate is below 30 (it is 0 for the empty list), a task that is not Done is due within
  0 to 3 days, or there is an assignee and the number of tasks per distinct assignee
  exceeds 3.
\<close>

theorem recommendations_default_iff:
  "length (generateAIRecommendations today ts) \<ge> 1 \<and>
   (generateAIRecommendations today ts = [success_rec] \<longleftrightarrow>
      \<not> (\<exists>t \<in> set ts. \<exists>d. due t = DueAt d \<and> d < today \<and> status t \<noteq> ''Done'')
    \<and> \<not> length (filter (\<lambda>t. status t \<noteq> ''Done'') ts) > 5
    \<and> \<not> (ts = [] \<or>
          real (length (filter (\<lambda>t. status t = ''Done'') ts)) / real (length ts) * 100 < 30)
    \<and> \<not> (\<exists>t \<in> set ts. \<exists>d. due t = DueAt d \<and> status t \<noteq> ''Done'' \<and>
             0 \<le> daysLeft today d \<and> daysLeft today d \<le> 3)
    \<and> \<not> (card {a \<in> assignee ` set ts. truthy a} > 0 \<and>
          real (length ts) / real (card {a \<in> assignee ` set ts. truthy a}) > 3))"
proof -
  let ?o = "overdueTasks today ts > 0" and ?w = "highPriorityTasks_R ts > 5"
  let ?p = "js_less (completionRate_R ts) 30" and ?d = "upcomingDeadlines today ts > 0"
  let ?c = "length (uniqueAssignees ts) > 0 \<and> js_greater (avgTasksPerPerson ts) 3"
  have p: "?p \<longleftrightarrow> (ts = [] \<or>
      real (length (filter (\<lambda>t. status t = ''Done'') ts)) / real (length ts) * 100 < 30)"
    by (simp add: completionRate_R_def count_div_def)
  have c: "?c \<longleftrightarrow> (card {a \<in> assignee ` set ts. truthy a} > 0 \<and>
      real (length ts) / real (card {a \<in> assignee ` set ts. truthy a}) > 3)"
    unfolding avgTasksPerPerson_def size_uniqueAssignees by (rule count_div_greater)
  have len: "length (generateAIRecommendations today ts) \<ge> 1"
    unfolding generateAIRecommendations_cases Let_def by simp
  have iff: "generateAIRecommendations today ts = [success_rec] \<longleftrightarrow>
      \<not> ?o \<and> \<not> ?w \<and> \<not> ?p \<and> \<not> ?d \<and> \<not> ?c"
    unfolding generateAIRecommendations_cases Let_def
    using success_rec_distinct by (auto split: if_splits)
  show ?thesis
    using len iff
    unfolding p c overdueTasks_pos upcomingDeadlines_pos highPriorityTasks_R_def
    by simp
qed

theorem recommendations_default_iff_witness:
  "generateAIRecommendations 1728000000000
     [\<lparr>task_id = 1, title = ''Create hero image'', description = None,
       assignee = Some ''alice@example.com'', due = DueAt 1757894400000,
       status = ''Done'', complexity = None\<rparr>] = [success_rec]
   \<and> completionRate_R
     [\<lparr>task_id = 1, title = ''Create hero image'', description = None,
       assignee = Some ''alice@example.com'', due = DueAt 1757894400000,
       status = ''Done'', complexity = None\<rparr>] = Fin 100
   \<and> generateAIRecommendations 1728000000000 ([] :: task list) = [productivity_rec]
   \<and> completionRate_R ([] :: task list) = Fin 0"
proof -
  let ?ts = "[\<lparr>task_id = 1, title = ''Create hero image'', description = None,
       assignee = Some ''alice@example.com'', due = DueAt 1757894400000,
       status = ''Done'', complexity = None\<rparr>]"
  have a: "generateAIRecommendations 1728000000000 ?ts = [success_rec]"
    by (simp add: rec_defs)
  have b: "generateAIRecommendations 1728000000000 ([] :: task list) = [productivity_rec]"
    by (simp add: rec_defs)
  have c: "productivity_rec \<noteq> success_rec"
    by (simp add: productivity_rec_def success_rec_def)
  have d: "completionRate_R ?ts = Fin 100" "completionRate_R ([] :: task list) = Fin 0"
    by (simp_all add: completionRate_R_def count_div_def)
  show ?thesis
    using a b c d recommendations_default_iff [of 1728000000000 ?ts]
      recommendations_default_iff [of 1728000000000 "[] :: task list"]
    by simp
qed

section \<open>Urgent tasks\<close>

lemma length_filter_or_and:
  "length (filter P xs) + length (filter Q xs)
     = length (filter (\<lambda>x. P x \<or> Q x) xs) + length (filter (\<lambda>x. P x \<and> Q x) xs)"
  by (induction xs) auto

text \<open>
  C2. The aggregated urgentTasks count is the number of insights whose deadline risk is
  overdue or critical plus the number whose priority is high. Nothing is deduplicated:
  the sum is the number of insights with at least one of the two conditions plus the
  number with both, so an insight with both conditions contributes 2.
\<close>

theorem urgent_tasks_double_count:
  "urgentTasks (generateSummaryInsights tis)
     = length (filter (\<lambda>ti. risk_level_of (insight ti) = Some ''overdue'' \<or>
                             risk_level_of (insight ti) = Some ''critical'') tis)
       + length (filter (\<lambda>ti. priority_of (insight ti) = Some ''high'') tis)
   \<and> urgentTasks (generateSummaryInsights tis)
     = highRiskTasks (generateSummaryInsights tis) + highPriorityTasks (generateSummaryInsights tis)
   \<and> urgentTasks (generateSummaryInsights tis)
     = length (filter (\<lambda>ti. (risk_level_of (insight ti) = Some ''overdue'' \<or>
                              risk_level_of (insight ti) = Some ''critical'') \<or>
                             priority_of (insight ti) = Some ''high'') tis)
       + length (filter (\<lambda>ti. (risk_level_of (insight ti) = Some ''overdue'' \<or>
                              risk_level_of (insight ti) = Some ''critical'') \<and>
                             priority_of (insight ti) = Some ''high'') tis)"
proof -
  have u: "urgentTasks (generateSummaryInsights tis)
     = length (filter (\<lambda>ti. risk_level_of (insight ti) = Some ''overdue'' \<or>
                             risk_level_of (insight ti) = Some ''critical'') tis)
       + length (filter (\<lambda>ti. priority_of (insight ti) = Some ''high'') tis)"
    by (simp add: generateSummaryInsights_def Let_def)
  have h: "highRiskTasks (generateSummaryInsights tis)
     = length (filter (\<lambda>ti. risk_level_of (insight ti) = Some ''overdue'' \<or>
                             risk_level_of (insight ti) = Some ''critical'') tis)"
    "highPriorityTasks (generateSummaryInsights tis)
     = length (filter (\<lambda>ti. priority_of (insight ti) = Some ''high'') tis)"
    by (simp_all add: generateSummaryInsights_def Let_def)
  show ?thesis
    unfolding h u using length_filter_or_and by blast
qed

theorem urgent_tasks_double_count_witness:
  "urgentTasks (generateSummaryInsights
     [\<lparr>task = \<lparr>task_id = 1, title = ''a'', description = None, assignee = None,
                due = NoDue, status = ''To-Do'', complexity = None, projectName = ''P''\<rparr>,
       insight = Some \<lparr>priority = Some \<lparr>priority_label = Some ''high''\<rparr>,
                       deadline = Some \<lparr>risk_level = Some ''overdue'',
                                        recommendations = None\<rparr>\<rparr>\<rparr>]) = 2"
  using urgent_tasks_double_count [of
     "[\<lparr>task = \<lparr>task_id = 1, title = ''a'', description = None, assignee = None,
                due = NoDue, status = ''To-Do'', complexity = None, projectName = ''P''\<rparr>,
       insight = Some \<lparr>priority = Some \<lparr>priority_label = Some ''high''\<rparr>,
                       deadline = Some \<lparr>risk_level = Some ''overdue'',
                                        recommendations = None\<rparr>\<rparr>\<rparr>]"]
  by (simp add: priority_of_def risk_level_of_def)

section \<open>Rates\<close>

lemma count_rate:
  assumes "k \<le> n" and "n > 0"
  shows "js_scale (count_div k n) 100 = Fin (real k / real n * 100)"
    and "0 \<le> real k / real n * 100" and "real k / real n * 100 \<le> 100"
proof -
  show "js_scale (count_div k n) 100 = Fin (real k / real n * 100)"
    using assms(2) by (simp add: count_div_def)
  show "0 \<le> real k / real n * 100" by simp
  have "real k / real n \<le> 1" using assms by simp
  then have "real k / real n * 100 \<le> 1 * 100" by (rule mult_right_mono) simp
  then show "real k / real n * 100 \<le> 100" by simp
qed

lemma done_plus_in_progress_le:
  "length (filter (\<lambda>t. status t = ''Done'') ts)
   + length (filter (\<lambda>t. status t = ''In Progress'') ts) \<le> length ts"
  by (induction ts) auto

lemma guarded_rate:
  assumes "k \<le> n"
  shows "\<exists>r. (if n > 0 then js_scale (count_div k n) 100 else Fin 0) = Fin r \<and> 0 \<le> r \<and> r \<le> 100"
proof (cases "n > 0")
  case True
  with count_rate [OF assms True] show ?thesis by auto
next
  case False
  then show ?thesis by simp
qed

lemma toFixed1_bounds:
  assumes "0 \<le> x" and "x \<le> 100"
  shows "\<exists>n. toFixed1 (Fin x) = Tenths n \<and> 0 \<le> n \<and> n \<le> 1000"
proof -
  have "toFixed1 (Fin x) = Tenths \<lfloor>x * 10 + 1 / 2\<rfloor>" using assms by simp
  moreover have "0 \<le> \<lfloor>x * 10 + 1 / 2\<rfloor>" using assms by simp
  moreover have "x * 10 + 1 / 2 < 1001" using assms by simp
  then have "\<lfloor>x * 10 + 1 / 2\<rfloor> < 1001" by (simp add: floor_less_iff)
  ultimately show ?thesis by simp
qed

lemma completionRate_P_finite:
  "\<exists>r. completionRate_P ts = Fin r \<and> 0 \<le> r \<and> r \<le> 100"
  unfolding completionRate_P_def by (rule guarded_rate) simp

lemma completionRate_R_finite:
  "\<exists>r. completionRate_R ts = Fin r \<and> 0 \<le> r \<and> r \<le> 100"
  unfolding completionRate_R_def by (rule guarded_rate) simp

lemma progressRate_P_finite:
  "\<exists>r. progressRate_P ts = Fin r \<and> 0 \<le> r \<and> r \<le> 100"
  unfolding progressRate_P_def by (rule guarded_rate) (rule done_plus_in_progress_le)

lemma summary_completionRate:
  "completionRate (generateSummaryInsights tis) =
     (if length tis > 0
      then Fixed (toFixed1 (js_scale
             (count_div (length (filter (\<lambda>t. status (task t) = ''Done'') tis)) (length tis)) 100))
      else Number 0)"
  by (simp add: generateSummaryInsights_def Let_def)

lemma summary_completionRate_finite:
  "\<exists>r. shown_value (completionRate (generateSummaryInsights tis)) = Some r \<and> 0 \<le> r \<and> r \<le> 100"
proof (cases "length tis > 0")
  case True
  let ?k = "length (filter (\<lambda>t. status (task t) = ''Done'') tis)"
  have k: "?k \<le> length tis" by simp
  note r = count_rate [OF k True]
  from toFixed1_bounds [OF r(2,3)] obtain n
    where n: "toFixed1 (Fin (real ?k / real (length tis) * 100)) = Tenths n" "0 \<le> n" "n \<le> 1000"
    by blast
  have "shown_value (completionRate (generateSummaryInsights tis)) = Some (real_of_int n / 10)"
    unfolding summary_completionRate r(1) n(1) using True by simp
  moreover have "0 \<le> real_of_int n / 10" "real_of_int n / 10 \<le> 100" using n(2,3) by simp_all
  ultimately show ?thesis by blast
next
  case False
  then show ?thesis by (simp add: summary_completionRate)
qed

text \<open>
  C3. Every computed completion rate is a finite number between 0 and 100, and it is 0
  for the empty list: the rate of the productivity analysis (the number, and the string
  shown, in tenths), the rate of the summary (a string in tenths, or the number 0) and
  the rate used by the recommendation generator. The division is only evaluated for a
  non-empty list, so it never yields \<^verbatim>\<open>NaN\<close> or \<^verbatim>\<open>Infinity\<close>.
\<close>

theorem completion_rate_in_range:
  "(\<exists>r. completionRate_P ts = Fin r \<and> 0 \<le> r \<and> r \<le> 100)
   \<and> completionRate_P [] = Fin 0
   \<and> (\<exists>n. completionRate_str (generateProductivityInsights ts) = Tenths n \<and> 0 \<le> n \<and> n \<le> 1000)
   \<and> completionRate_str (generateProductivityInsights []) = Tenths 0
   \<and> (\<exists>r. shown_value (completionRate (generateSummaryInsights tis)) = Some r
          \<and> 0 \<le> r \<and> r \<le> 100)
   \<and> completionRate (generateSummaryInsights []) = Number 0
   \<and> (\<exists>r. completionRate_R ts = Fin r \<and> 0 \<le> r \<and> r \<le> 100)
   \<and> completionRate_R [] = Fin 0"
proof -
  have a: "completionRate_P [] = Fin 0" "completionRate_R [] = Fin 0"
    by (simp_all add: completionRate_P_def completionRate_R_def)
  have b: "completionRate_str (generateProductivityInsights ts) = toFixed1 (completionRate_P ts)"
    by (simp add: generateProductivityInsights_def)
  have c: "completionRate_str (generateProductivityInsights []) = Tenths 0"
    by (simp add: generateProductivityInsights_def completionRate_P_def)
  have d: "completionRate (generateSummaryInsights []) = Number 0"
    by (simp add: summary_completionRate)
  from completionRate_P_finite [of ts] obtain r
    where r: "completionRate_P ts = Fin r" "0 \<le> r" "r \<le> 100" by blast
  have e: "\<exists>n. completionRate_str (generateProductivityInsights ts) = Tenths n \<and> 0 \<le> n \<and> n \<le> 1000"
    unfolding b r(1) using toFixed1_bounds [OF r(2,3)] .
  show ?thesis
    by (intro conjI completionRate_P_finite a c d e summary_completionRate_finite
        completionRate_R_finite)
qed

theorem completion_rate_in_range_witness:
  "completionRate_P
     [\<lparr>task_id = 1, title = ''a'', description = None, assignee = None, due = NoDue,
       status = ''Done'', complexity = None\<rparr>,
      \<lparr>task_id = 2, title = ''b'', description = None, assignee = None, due = NoDue,
       status = ''In Progress'', complexity = None\<rparr>,
      \<lparr>task_id = 3, title = ''c'', description = None, assignee = None, due = NoDue,
       status = ''To-Do'', complexity = None\<rparr>] = Fin (100 / 3)
   \<and> completionRate_str (generateProductivityInsights
     [\<lparr>task_id = 1, title = ''a'', description = None, assignee = None, due = NoDue,
       status = ''Done'', complexity = None\<rparr>,
      \<lparr>task_id = 2, title = ''b'', description = None, assignee = None, due = NoDue,
       status = ''In Progress'', complexity = None\<rparr>,
      \<lparr>task_id = 3, title = ''c'', description = None, assignee = None, due = NoDue,
       status = ''To-Do'', complexity = None\<rparr>]) = Tenths 333
   \<and> completionRate_P ([] :: task list) = Fin 0"
proof -
  let ?ts = "[\<lparr>task_id = 1, title = ''a'', description = None, assignee = None, due = NoDue,
       status = ''Done'', complexity = None\<rparr>,
      \<lparr>task_id = 2, title = ''b'', description = None, assignee = None, due = NoDue,
       status = ''In Progress'', complexity = None\<rparr>,
      \<lparr>task_id = 3, title = ''c'', description = None, assignee = None, due = NoDue,
       status = ''To-Do'', complexity = None\<rparr>]"
  have a: "completionRate_P ?ts = Fin (100 / 3)"
    by (simp add: completionRate_P_def count_div_def)
  have b: "completionRate_str (generateProductivityInsights ?ts) = Tenths 333"
    by (simp add: generateProductivityInsights_def a)
  from completion_rate_in_range [of ?ts "[]"]
  have c: "completionRate_P ([] :: task list) = Fin 0" by blast
  show ?thesis by (intro conjI a b c)
qed

lemma Fin_sum_half:
  "js_scale (js_add (Fin c) (Fin p)) (1 / 2) = Fin ((c + p) / 2)"
  by simp

text \<open>
  C10. completionRate and progressRate are finite and at most 100, completionRate is at
  most progressRate, hence their average is at most 100 and the clamp
  min(100, average) of the productivity score returns the average itself.
\<close>

theorem productivity_score_unclamped:
  "\<exists>c p. completionRate_P ts = Fin c \<and> progressRate_P ts = Fin p
     \<and> c \<le> 100 \<and> p \<le> 100 \<and> c \<le> p \<and> (c + p) / 2 \<le> 100
     \<and> js_min 100 (js_scale (js_add (completionRate_P ts) (progressRate_P ts)) (1 / 2))
         = js_scale (js_add (completionRate_P ts) (progressRate_P ts)) (1 / 2)
     \<and> js_scale (js_add (completionRate_P ts) (progressRate_P ts)) (1 / 2) = Fin ((c + p) / 2)
     \<and> productivityScore (generateProductivityInsights ts) = toFixed1 (Fin ((c + p) / 2))"
proof -
  from completionRate_P_finite [of ts] obtain c
    where c: "completionRate_P ts = Fin c" "0 \<le> c" "c \<le> 100" by blast
  from progressRate_P_finite [of ts] obtain p
    where p: "progressRate_P ts = Fin p" "0 \<le> p" "p \<le> 100" by blast
  have le: "c \<le> p"
  proof (cases "length ts > 0")
    case True
    have "Fin c = Fin (real (length (filter (\<lambda>t. status t = ''Done'') ts)) / real (length ts) * 100)"
      using True c(1) by (simp add: completionRate_P_def count_div_def)
    moreover have "Fin p = Fin (real (length (filter (\<lambda>t. status t = ''Done'') ts)
                 + length (filter (\<lambda>t. status t = ''In Progress'') ts)) / real (length ts) * 100)"
      using True p(1) by (simp add: progressRate_P_def count_div_def)
    ultimately show ?thesis by (simp add: divide_right_mono)
  next
    case False
    then have "Fin c = Fin 0" "Fin p = Fin 0"
      using c(1) p(1) by (simp_all add: completionRate_P_def progressRate_P_def)
    then show ?thesis by simp
  qed
  have avg: "(c + p) / 2 \<le> 100" using c(3) p(3) by simp
  have half: "js_scale (js_add (completionRate_P ts) (progressRate_P ts)) (1 / 2) = Fin ((c + p) / 2)"
    unfolding c(1) p(1) by (rule Fin_sum_half)
  have m: "js_min 100 (js_scale (js_add (completionRate_P ts) (progressRate_P ts)) (1 / 2))
         = js_scale (js_add (completionRate_P ts) (progressRate_P ts)) (1 / 2)"
    unfolding half using avg by simp
  have s: "productivityScore (generateProductivityInsights ts) = toFixed1 (Fin ((c + p) / 2))"
    using m half by (simp add: generateProductivityInsights_def)
  show ?thesis
    using c(1,3) p(1,3) le avg m half s by blast
qed

theorem productivity_score_unclamped_witness:
  "productivityScore (generateProductivityInsights
     [\<lparr>task_id = 1, title = ''a'', description = None, assignee = None, due = NoDue,
       status = ''Done'', complexity = None\<rparr>,
      \<lparr>task_id = 2, title = ''b'', description = None, assignee = None, due = NoDue,
       status = ''In Progress'', complexity = None\<rparr>]) = Tenths 750"
proof -
  let ?ts = "[\<lparr>task_id = 1, title = ''a'', description = None, assignee = None, due = NoDue,
       status = ''Done'', complexity = None\<rparr>,
      \<lparr>task_id = 2, title = ''b'', description = None, assignee = None, due = NoDue,
       status = ''In Progress'', complexity = None\<rparr>]"
  have a: "completionRate_P ?ts = Fin 50" "progressRate_P ?ts = Fin 100"
    by (simp_all add: completionRate_P_def progressRate_P_def count_div_def)
  from productivity_score_unclamped [of ?ts] obtain c p
    where "completionRate_P ?ts = Fin c" "progressRate_P ?ts = Fin p"
      "productivityScore (generateProductivityInsights ?ts) = toFixed1 (Fin ((c + p) / 2))"
    by blast
  then show ?thesis by (simp add: a)
qed

section \<open>Days left\<close>

lemma ceiling_date_only:
  fixes D N r :: int
  assumes "0 < m" "0 \<le> r" "r < m"
  shows "\<lceil>real_of_int (D * m - (N * m + r)) / real_of_int m\<rceil> = D - N"
proof -
  have "real_of_int (D * m - (N * m + r)) / real_of_int m
      = real_of_int (D - N) - real_of_int r / real_of_int m"
    using assms by (simp add: field_simps)
  moreover have "0 \<le> real_of_int r / real_of_int m" using assms by simp
  moreover have "real_of_int r / real_of_int m < 1" using assms by simp
  ultimately show ?thesis
    by (simp add: ceiling_eq_iff)
qed

text \<open>
  For a due value without time of day (a date-only string, which \<^verbatim>\<open>new Date\<close> parses
  as midnight UTC), getDaysLeft returns the whole-day difference between the due date
  and the current UTC date, whatever the current time of day.
\<close>

lemma getDaysLeft_date_only:
  assumes "d mod msPerDay = 0"
  shows "getDaysLeft today (DueAt d) = Days (date_only_diff today d)"
proof -
  have m: "0 < msPerDay" by (simp add: msPerDay_def)
  have d: "d = (d div msPerDay) * msPerDay" using assms by (simp add: minus_mod_eq_div_mult [symmetric])
  have t: "today = (today div msPerDay) * msPerDay + today mod msPerDay" by simp
  have "\<lceil>real_of_int ((d div msPerDay) * msPerDay - ((today div msPerDay) * msPerDay + today mod msPerDay))
          / real_of_int msPerDay\<rceil> = d div msPerDay - today div msPerDay"
    by (rule ceiling_date_only) (use m in simp_all)
  then have "\<lceil>real_of_int (d - today) / real_of_int msPerDay\<rceil> = d div msPerDay - today div msPerDay"
    using d t by metis
  then show ?thesis
    by (simp add: getDaysLeft_def date_only_diff_def day_of_def)
qed

text \<open>
  C7. The days-left of a task is to be the whole-day difference due - today under a
  date-only comparison, 0 for a task due today. getDaysLeft does return that for a
  date-only due value, but the recommendation generator does not: it compares and
  divides the raw instants. For the first task of the application's initial project,
  due 2025-09-15, seen at noon UTC of that day, the date-only difference is 0 and
  getDaysLeft is 0, while the generator's daysLeft is -1/2, the task is counted as
  overdue, is not counted as an upcoming deadline, and the recommendation for overdue
  tasks is issued.
\<close>

theorem days_left_due_today_divergence:
  "1757894400000 mod msPerDay = 0
   \<and> date_only_diff 1757937600000 1757894400000 = 0
   \<and> getDaysLeft 1757937600000 (DueAt 1757894400000) = Days 0
   \<and> daysLeft 1757937600000 1757894400000 = - (1 / 2)
   \<and> overdueTasks 1757937600000
        [\<lparr>task_id = 1, title = ''Create hero image'', description = Some ''Design a hero banner'',
          assignee = Some ''alice@example.com'', due = DueAt 1757894400000,
          status = ''To-Do'', complexity = None\<rparr>] = 1
   \<and> upcomingDeadlines 1757937600000
        [\<lparr>task_id = 1, title = ''Create hero image'', description = Some ''Design a hero banner'',
          assignee = Some ''alice@example.com'', due = DueAt 1757894400000,
          status = ''To-Do'', complexity = None\<rparr>] = 0
   \<and> map rec_title (generateAIRecommendations 1757937600000
        [\<lparr>task_id = 1, title = ''Create hero image'', description = Some ''Design a hero banner'',
          assignee = Some ''alice@example.com'', due = DueAt 1757894400000,
          status = ''To-Do'', complexity = None\<rparr>])
       = [''Overdue Tasks Detected'', ''Productivity Optimization'']"
proof -
  have d: "1757894400000 mod msPerDay = 0" by (simp add: msPerDay_def)
  have dd: "date_only_diff 1757937600000 1757894400000 = 0"
    by (simp add: date_only_diff_def day_of_def msPerDay_def)
  have g: "getDaysLeft 1757937600000 (DueAt 1757894400000) = Days 0"
    using getDaysLeft_date_only [OF d, of 1757937600000] by (simp only: dd)
  have l: "daysLeft 1757937600000 1757894400000 = - (1 / 2)"
    by (simp add: daysLeft_def msPerDay_def)
  have o: "overdueTasks 1757937600000
        [\<lparr>task_id = 1, title = ''Create hero image'', description = Some ''Design a hero banner'',
          assignee = Some ''alice@example.com'', due = DueAt 1757894400000,
          status = ''To-Do'', complexity = None\<rparr>] = 1"
    by (simp add: overdueTasks_def)
  have u: "upcomingDeadlines 1757937600000
        [\<lparr>task_id = 1, title = ''Create hero image'', description = Some ''Design a hero banner'',
          assignee = Some ''alice@example.com'', due = DueAt 1757894400000,
          status = ''To-Do'', complexity = None\<rparr>] = 0"
    by (simp add: upcomingDeadlines_def tasksWithDeadlines_def daysLeft_def msPerDay_def)
  have r: "map rec_title (generateAIRecommendations 1757937600000
        [\<lparr>task_id = 1, title = ''Create hero image'', description = Some ''Design a hero banner'',
          assignee = Some ''alice@example.com'', due = DueAt 1757894400000,
          status = ''To-Do'', complexity = None\<rparr>])
       = [''Overdue Tasks Detected'', ''Productivity Optimization'']"
    by (simp add: rec_defs overdue_rec_def productivity_rec_def)
  show ?thesis
    by (intro conjI d dd g l o u r)
qed

section \<open>Counts per member\<close>

lemma map_of_replace:
  "map_of (map (\<lambda>(k', v'). if k' = k then (k', v) else (k', v')) obj) x
     = (if x = k \<and> map_of obj k \<noteq> None then Some v else map_of obj x)"
  by (induction obj) auto

lemma map_of_set_prop:
  "map_of (set_prop obj k v) x
     = (if x = k \<and> k \<noteq> ''__proto__'' then Some v else map_of obj x)"
proof (cases "map_of obj k")
  case None
  then show ?thesis by (auto simp: set_prop_def map_add_def split: option.splits)
next
  case (Some a)
  then show ?thesis by (simp add: set_prop_def map_of_replace)
qed

lemma keys_set_prop:
  "set (map fst (set_prop obj k v)) \<subseteq> insert k (set (map fst obj))"
  by (auto simp: set_prop_def split: option.splits if_splits)

lemma count_of_set_prop:
  "k \<noteq> ''__proto__'' \<Longrightarrow>
   count_of (set_prop obj k v) x = (if x = k then v else count_of obj x)"
  by (simp add: count_of_def map_of_set_prop)

lemma memberTaskCounts_count_member:
  "memberTaskCounts (count_member p acc m)
     = set_prop (memberTaskCounts acc) m (count_of (memberTaskCounts acc) m + assigned p m)"
  by (simp add: count_member_def)

lemma members_fold:
  assumes "''__proto__'' \<notin> set ms"
  shows "map_of (memberTaskCounts (foldl (count_member p) acc ms)) x
     = (if x \<in> set ms
        then Some (count_of (memberTaskCounts acc) x + count_list ms x * assigned p x)
        else map_of (memberTaskCounts acc) x)"
  using assms
proof (induction ms arbitrary: acc)
  case Nil
  then show ?case by simp
next
  case (Cons m ms)
  let ?acc = "count_member p acc m"
  have m: "m \<noteq> ''__proto__''" and ms: "''__proto__'' \<notin> set ms" using Cons.prems by auto
  have upd: "\<And>y. map_of (memberTaskCounts ?acc) y
      = (if y = m then Some (count_of (memberTaskCounts acc) m + assigned p m)
         else map_of (memberTaskCounts acc) y)"
    using m by (simp add: memberTaskCounts_count_member map_of_set_prop)
  have cnt: "\<And>y. count_of (memberTaskCounts ?acc) y
      = (if y = m then count_of (memberTaskCounts acc) m + assigned p m
         else count_of (memberTaskCounts acc) y)"
    using m by (simp add: memberTaskCounts_count_member count_of_set_prop)
  have "map_of (memberTaskCounts (foldl (count_member p) ?acc ms)) x
     = (if x \<in> set ms
        then Some (count_of (memberTaskCounts ?acc) x + count_list ms x * assigned p x)
        else map_of (memberTaskCounts ?acc) x)"
    by (rule Cons.IH [OF ms])
  then show ?case
    by (simp add: upd cnt)
qed

lemma count_of_members_fold:
  assumes "''__proto__'' \<notin> set ms"
  shows "count_of (memberTaskCounts (foldl (count_member p) acc ms)) x
     = count_of (memberTaskCounts acc) x + count_list ms x * assigned p x"
proof (cases "x \<in> set ms")
  case True
  then show ?thesis by (simp add: count_of_def members_fold [OF assms])
next
  case False
  then have "count_list ms x = 0" by (simp add: count_list_0_iff)
  with False show ?thesis by (simp add: count_of_def members_fold [OF assms])
qed

lemma memberTaskCounts_count_project:
  "memberTaskCounts (count_project acc p)
     = memberTaskCounts (foldl (count_member p) acc (members p))"
  by (simp add: count_project_def Let_def)

lemma plain_members_Cons:
  "plain_members (p # ps) \<Longrightarrow> ''__proto__'' \<notin> set (members p) \<and> plain_members ps"
  by (auto simp: plain_members_def inherited_names_def list_all_iff)

lemma projects_fold:
  assumes "plain_members ps"
  shows "map_of (memberTaskCounts (foldl count_project acc ps)) x
     = (if \<exists>p \<in> set ps. x \<in> set (members p)
        then Some (count_of (memberTaskCounts acc) x
                   + (\<Sum>p\<leftarrow>ps. count_list (members p) x * assigned p x))
        else map_of (memberTaskCounts acc) x)"
  using assms
proof (induction ps arbitrary: acc)
  case Nil
  then show ?case by simp
next
  case (Cons p ps)
  let ?acc = "count_project acc p"
  from plain_members_Cons [OF Cons.prems]
  have pr: "''__proto__'' \<notin> set (members p)" and ps: "plain_members ps" by auto
  have here: "map_of (memberTaskCounts ?acc) x
     = (if x \<in> set (members p)
        then Some (count_of (memberTaskCounts acc) x + count_list (members p) x * assigned p x)
        else map_of (memberTaskCounts acc) x)"
    by (simp add: memberTaskCounts_count_project members_fold [OF pr])
  have cnt: "count_of (memberTaskCounts ?acc) x
     = count_of (memberTaskCounts acc) x + count_list (members p) x * assigned p x"
    by (simp add: memberTaskCounts_count_project count_of_members_fold [OF pr])
  have zero: "x \<notin> set (members p) \<Longrightarrow> count_list (members p) x = 0"
    by (simp add: count_list_0_iff)
  have "map_of (memberTaskCounts (foldl count_project ?acc ps)) x
     = (if \<exists>p \<in> set ps. x \<in> set (members p)
        then Some (count_of (memberTaskCounts ?acc) x
                   + (\<Sum>p\<leftarrow>ps. count_list (members p) x * assigned p x))
        else map_of (memberTaskCounts ?acc) x)"
    by (rule Cons.IH [OF ps])
  then show ?case
    using zero by (auto simp: here cnt)
qed

lemma count_list_distinct:
  "distinct xs \<Longrightarrow> x \<in> set xs \<Longrightarrow> count_list xs x = 1"
  by (induction xs) (auto simp: count_list_0_iff)

lemma distinct_count_sum:
  assumes "\<forall>p \<in> set ps. distinct (members p)"
  shows "(\<Sum>p\<leftarrow>ps. count_list (members p) x * assigned p x)
     = length (filter (\<lambda>t. assignee t = Some x)
         (concat (map tasks (filter (\<lambda>p. x \<in> set (members p)) ps))))"
  using assms
proof (induction ps)
  case Nil
  then show ?case by simp
next
  case (Cons p ps)
  have "x \<in> set (members p) \<Longrightarrow> count_list (members p) x = 1"
    using Cons.prems by (simp add: count_list_distinct)
  moreover have "x \<notin> set (members p) \<Longrightarrow> count_list (members p) x = 0"
    by (simp add: count_list_0_iff)
  ultimately show ?case
    using Cons by (auto simp: assigned_def)
qed

lemmas team_defs = team_counts_def count_project_def count_member_def set_prop_def
  set_add_def count_of_def

text \<open>
  C6, as stated, fails. A task is counted for its assignee only inside a project that
  lists the assignee as a member: with alice a member of project P alone and her one
  task in project Q, her count is 0 although one task across all projects is assigned
  to her.
\<close>

theorem member_task_counts_counterexample:
  "memberTaskCounts (team_counts
     [\<lparr>project_id = 1, name = ''P'', members = [''alice''], tasks = []\<rparr>,
      \<lparr>project_id = 2, name = ''Q'', members = [],
       tasks = [\<lparr>task_id = 1, title = ''t'', description = None, assignee = Some ''alice'',
                 due = NoDue, status = ''To-Do'', complexity = None\<rparr>]\<rparr>])
     = [(''alice'', 0)]
   \<and> length (filter (\<lambda>t. assignee t = Some ''alice'')
       (concat (map tasks
         [\<lparr>project_id = 1, name = ''P'', members = [''alice''], tasks = []\<rparr>,
          \<lparr>project_id = 2, name = ''Q'', members = [],
           tasks = [\<lparr>task_id = 1, title = ''t'', description = None, assignee = Some ''alice'',
                     due = NoDue, status = ''To-Do'', complexity = None\<rparr>]\<rparr>]))) = 1"
  by (simp add: team_defs assigned_def)

text \<open>
  C6, amended. For member identifiers that are not names inherited from
  \<^verbatim>\<open>Object.prototype\<close>: a member listed by no project has no count; the count of a
  listed member is the sum, over the projects, of the number of the project's tasks
  assigned to the member times the number of occurrences of the member in the project's
  member list. With duplicate-free member lists this is the number of tasks assigned to
  the member in the projects that list the member.
\<close>

theorem member_task_counts:
  assumes "plain_members projects"
  shows "map_of (memberTaskCounts (team_counts projects)) member =
     (if \<exists>p \<in> set projects. member \<in> set (members p)
      then Some (\<Sum>p\<leftarrow>projects. count_list (members p) member *
                   length (filter (\<lambda>t. assignee t = Some member) (tasks p)))
      else None)
   \<and> ((\<forall>p \<in> set projects. distinct (members p)) \<longrightarrow>
       count_of (memberTaskCounts (team_counts projects)) member =
         length (filter (\<lambda>t. assignee t = Some member)
           (concat (map tasks (filter (\<lambda>p. member \<in> set (members p)) projects)))))"
proof -
  have a: "map_of (memberTaskCounts (team_counts projects)) member =
     (if \<exists>p \<in> set projects. member \<in> set (members p)
      then Some (\<Sum>p\<leftarrow>projects. count_list (members p) member * assigned p member)
      else None)"
    unfolding team_counts_def
    by (simp add: projects_fold [OF assms] count_of_def)
  have z: "\<not> (\<exists>p \<in> set projects. member \<in> set (members p)) \<Longrightarrow>
     filter (\<lambda>p. member \<in> set (members p)) projects = []"
    by (simp add: filter_empty_conv)
  have b: "(\<forall>p \<in> set projects. distinct (members p)) \<Longrightarrow>
       count_of (memberTaskCounts (team_counts projects)) member =
         length (filter (\<lambda>t. assignee t = Some member)
           (concat (map tasks (filter (\<lambda>p. member \<in> set (members p)) projects))))"
    using z by (auto simp: count_of_def a distinct_count_sum)
  show ?thesis
    using a b unfolding assigned_def by blast
qed

theorem member_task_counts_witness:
  "plain_members
     [\<lparr>project_id = 1, name = ''P'', members = [''alice''], tasks = []\<rparr>,
      \<lparr>project_id = 2, name = ''Q'', members = [''alice'', ''bob''],
       tasks = [\<lparr>task_id = 1, title = ''t'', description = None, assignee = Some ''alice'',
                 due = NoDue, status = ''To-Do'', complexity = None\<rparr>]\<rparr>]
   \<and> map_of (memberTaskCounts (team_counts
     [\<lparr>project_id = 1, name = ''P'', members = [''alice''], tasks = []\<rparr>,
      \<lparr>project_id = 2, name = ''Q'', members = [''alice'', ''bob''],
       tasks = [\<lparr>task_id = 1, title = ''t'', description = None, assignee = Some ''alice'',
                 due = NoDue, status = ''To-Do'', complexity = None\<rparr>]\<rparr>])) ''alice'' = Some 1
   \<and> map_of (memberTaskCounts (team_counts
     [\<lparr>project_id = 1, name = ''P'', members = [''alice''], tasks = []\<rparr>,
      \<lparr>project_id = 2, name = ''Q'', members = [''alice'', ''bob''],
       tasks = [\<lparr>task_id = 1, title = ''t'', description = None, assignee = Some ''alice'',
                 due = NoDue, status = ''To-Do'', complexity = None\<rparr>]\<rparr>])) ''carol'' = None"
proof -
  let ?ps = "[\<lparr>project_id = 1, name = ''P'', members = [''alice''], tasks = []\<rparr>,
      \<lparr>project_id = 2, name = ''Q'', members = [''alice'', ''bob''],
       tasks = [\<lparr>task_id = 1, title = ''t'', description = None, assignee = Some ''alice'',
                 due = NoDue, status = ''To-Do'', complexity = None\<rparr>]\<rparr>]"
  have h: "plain_members ?ps"
    by (simp add: plain_members_def inherited_names_def)
  show ?thesis
    using h member_task_counts [OF h, of "''alice''"] member_task_counts [OF h, of "''carol''"]
    by simp
qed

section \<open>The most active member\<close>

lemma most_active_snoc:
  "most_active counts (ks @ [k])
     = (if count_gt (map_of counts (most_active counts ks)) (map_of counts k)
        then most_active counts ks else k)"
  by (simp add: most_active_def)

lemma count_gt_Some:
  "map_of counts a \<noteq> None \<Longrightarrow> map_of counts b \<noteq> None \<Longrightarrow>
   count_gt (map_of counts a) (map_of counts b) = (count_of counts a > count_of counts b)"
  by (auto simp: count_of_def)

lemma count_gt_imp:
  "count_gt x y \<Longrightarrow> x \<noteq> None \<and> y \<noteq> None"
  by (cases x; cases y) auto

lemma most_active_invariant:
  assumes "\<forall>k \<in> set ks. map_of counts k \<noteq> None"
  shows "(most_active counts ks = ''None'' \<and>
            (\<forall>k \<in> set ks. count_gt (map_of counts ''None'') (map_of counts k)))
         \<or> (\<exists>i < length ks. most_active counts ks = ks ! i
               \<and> (\<forall>j < length ks. count_of counts (ks ! j) \<le> count_of counts (ks ! i))
               \<and> (\<forall>j. i < j \<and> j < length ks \<longrightarrow>
                     count_of counts (ks ! j) < count_of counts (ks ! i)))"
  using assms
proof (induction ks rule: rev_induct)
  case Nil
  then show ?case by (simp add: most_active_def)
next
  case (snoc k ks)
  let ?r = "most_active counts ks"
  have k: "map_of counts k \<noteq> None" using snoc.prems by simp
  have ks: "\<forall>k \<in> set ks. map_of counts k \<noteq> None" using snoc.prems by simp
  from snoc.IH [OF ks]
  consider (init) "?r = ''None''"
      "\<forall>k \<in> set ks. count_gt (map_of counts ''None'') (map_of counts k)"
    | (idx) i where "i < length ks" "?r = ks ! i"
      "\<forall>j < length ks. count_of counts (ks ! j) \<le> count_of counts (ks ! i)"
      "\<forall>j. i < j \<and> j < length ks \<longrightarrow> count_of counts (ks ! j) < count_of counts (ks ! i)"
    by blast
  then show ?case
  proof cases
    case init
    show ?thesis
    proof (cases "count_gt (map_of counts ''None'') (map_of counts k)")
      case True
      then show ?thesis using init by (simp add: most_active_snoc)
    next
      case False
      have res: "most_active counts (ks @ [k]) = k"
        using False init by (simp add: most_active_snoc)
      have below: "count_of counts (ks ! j) \<le> count_of counts k" if "j < length ks" for j
      proof -
        have g: "count_gt (map_of counts ''None'') (map_of counts (ks ! j))"
          using init(2) that by simp
        then have n: "map_of counts ''None'' \<noteq> None" using count_gt_imp by blast
        have "count_of counts (ks ! j) < count_of counts ''None''"
          using g n ks that by (simp add: count_gt_Some)
        moreover have "count_of counts ''None'' \<le> count_of counts k"
          using False n k by (simp add: count_gt_Some)
        ultimately show ?thesis by simp
      qed
      have "length ks < length (ks @ [k]) \<and>
            most_active counts (ks @ [k]) = (ks @ [k]) ! length ks
            \<and> (\<forall>j < length (ks @ [k]).
                  count_of counts ((ks @ [k]) ! j) \<le> count_of counts ((ks @ [k]) ! length ks))
            \<and> (\<forall>j. length ks < j \<and> j < length (ks @ [k]) \<longrightarrow>
                  count_of counts ((ks @ [k]) ! j) < count_of counts ((ks @ [k]) ! length ks))"
        using res below by (auto simp: nth_append less_Suc_eq)
      then show ?thesis by blast
    qed
  next
    case idx
    have r: "map_of counts ?r \<noteq> None" using idx(1,2) ks by simp
    show ?thesis
    proof (cases "count_gt (map_of counts ?r) (map_of counts k)")
      case True
      then have lt: "count_of counts k < count_of counts (ks ! i)"
        using r k idx(2) by (simp add: count_gt_Some)
      have res: "most_active counts (ks @ [k]) = ks ! i"
        using True idx(2) by (simp add: most_active_snoc)
      have "i < length (ks @ [k]) \<and>
            most_active counts (ks @ [k]) = (ks @ [k]) ! i
            \<and> (\<forall>j < length (ks @ [k]).
                  count_of counts ((ks @ [k]) ! j) \<le> count_of counts ((ks @ [k]) ! i))
            \<and> (\<forall>j. i < j \<and> j < length (ks @ [k]) \<longrightarrow>
                  count_of counts ((ks @ [k]) ! j) < count_of counts ((ks @ [k]) ! i))"
        using res lt idx(1,3,4) by (auto simp: nth_append less_Suc_eq)
      then show ?thesis by blast
    next
      case False
      then have le: "count_of counts (ks ! i) \<le> count_of counts k"
        using r k idx(2) by (simp add: count_gt_Some)
      have res: "most_active counts (ks @ [k]) = k"
        using False by (simp add: most_active_snoc)
      have below: "count_of counts (ks ! j) \<le> count_of counts k" if "j < length ks" for j
        using idx(3) le that by (meson order_trans)
      have "length ks < length (ks @ [k]) \<and>
            most_active counts (ks @ [k]) = (ks @ [k]) ! length ks
            \<and> (\<forall>j < length (ks @ [k]).
                  count_of counts ((ks @ [k]) ! j) \<le> count_of counts ((ks @ [k]) ! length ks))
            \<and> (\<forall>j. length ks < j \<and> j < length (ks @ [k]) \<longrightarrow>
                  count_of counts ((ks @ [k]) ! j) < count_of counts ((ks @ [k]) ! length ks))"
        using res below by (auto simp: nth_append less_Suc_eq)
      then show ?thesis by blast
    qed
  qed
qed

lemma set_object_keys: "set (object_keys obj) = fst ` set obj"
  by (auto simp: object_keys_def)

lemma keys_have_counts: "k \<in> set (object_keys obj) \<Longrightarrow> map_of obj k \<noteq> None"
  by (simp add: set_object_keys map_of_eq_None_iff)

lemma mostActiveMember_eq:
  "mostActiveMember (generateTeamInsights projects)
     = most_active (memberTaskCounts (team_counts projects))
         (object_keys (memberTaskCounts (team_counts projects)))"
  by (simp add: generateTeamInsights_def Let_def)

lemmas keys_defs = object_keys_def is_array_index_def is_digit_def

text \<open>
  C5, as stated, fails. In a project like the one the application starts with, alice
  and bob have one task each and alice comes first in the iteration order of the counter
  object, yet the member chosen is bob: the reduction keeps its accumulator only when
  its count is strictly greater, so a later member with an equal count replaces an
  earlier one.
\<close>

theorem most_active_member_counterexample:
  "memberTaskCounts (team_counts
     [\<lparr>project_id = 1, name = ''Website Redesign'', members = [''alice'', ''bob''],
       tasks = [\<lparr>task_id = 1, title = ''Create hero image'', description = None,
                 assignee = Some ''alice'', due = NoDue, status = ''To-Do'', complexity = None\<rparr>,
                \<lparr>task_id = 2, title = ''Fix nav bug'', description = None,
                 assignee = Some ''bob'', due = NoDue, status = ''In Progress'',
                 complexity = None\<rparr>]\<rparr>]) = [(''alice'', 1), (''bob'', 1)]
   \<and> object_keys [(''alice'', 1 :: nat), (''bob'', 1)] = [''alice'', ''bob'']
   \<and> mostActiveMember (generateTeamInsights
     [\<lparr>project_id = 1, name = ''Website Redesign'', members = [''alice'', ''bob''],
       tasks = [\<lparr>task_id = 1, title = ''Create hero image'', description = None,
                 assignee = Some ''alice'', due = NoDue, status = ''To-Do'', complexity = None\<rparr>,
                \<lparr>task_id = 2, title = ''Fix nav bug'', description = None,
                 assignee = Some ''bob'', due = NoDue, status = ''In Progress'',
                 complexity = None\<rparr>]\<rparr>]) = ''bob''"
  by (simp add: team_defs assigned_def keys_defs generateTeamInsights_def most_active_def)

text \<open>
  C5, amended. For member identifiers that are not names inherited from
  \<^verbatim>\<open>Object.prototype\<close> and at least one counted member, mostActiveMember is a member
  with the highest count, and among the members with the highest count it is the one
  that occurs last in the iteration order of \<^verbatim>\<open>Object.keys\<close>: every later key has a
  strictly smaller count.
\<close>

theorem most_active_member_last_maximum:
  assumes "plain_members projects"
    and "memberTaskCounts (team_counts projects) \<noteq> []"
  shows "\<exists>i < length (object_keys (memberTaskCounts (team_counts projects))).
      mostActiveMember (generateTeamInsights projects)
        = object_keys (memberTaskCounts (team_counts projects)) ! i
      \<and> (\<forall>j < length (object_keys (memberTaskCounts (team_counts projects))).
            count_of (memberTaskCounts (team_counts projects))
              (object_keys (memberTaskCounts (team_counts projects)) ! j)
            \<le> count_of (memberTaskCounts (team_counts projects))
              (object_keys (memberTaskCounts (team_counts projects)) ! i))
      \<and> (\<forall>j. i < j \<and> j < length (object_keys (memberTaskCounts (team_counts projects))) \<longrightarrow>
            count_of (memberTaskCounts (team_counts projects))
              (object_keys (memberTaskCounts (team_counts projects)) ! j)
            < count_of (memberTaskCounts (team_counts projects))
              (object_keys (memberTaskCounts (team_counts projects)) ! i))"
proof -
  let ?c = "memberTaskCounts (team_counts projects)"
  let ?ks = "object_keys ?c"
  have all: "\<forall>k \<in> set ?ks. map_of ?c k \<noteq> None" using keys_have_counts by blast
  have "\<not> (most_active ?c ?ks = ''None'' \<and>
            (\<forall>k \<in> set ?ks. count_gt (map_of ?c ''None'') (map_of ?c k)))"
  proof
    assume a: "most_active ?c ?ks = ''None'' \<and>
            (\<forall>k \<in> set ?ks. count_gt (map_of ?c ''None'') (map_of ?c k))"
    obtain kv rest where "?c = kv # rest" using assms(2) by (cases ?c) auto
    then have "fst kv \<in> set ?ks" by (simp add: set_object_keys)
    then obtain k where k: "k \<in> set ?ks" ..
    with a have "count_gt (map_of ?c ''None'') (map_of ?c k)" by blast
    then have "map_of ?c ''None'' \<noteq> None" using count_gt_imp by blast
    then have "''None'' \<in> set ?ks" by (simp add: set_object_keys map_of_eq_None_iff)
    with a have "count_gt (map_of ?c ''None'') (map_of ?c ''None'')" by blast
    then show False by (cases "map_of ?c ''None''") auto
  qed
  with most_active_invariant [OF all] show ?thesis
    unfolding mostActiveMember_eq by blast
qed


theorem most_active_member_last_maximum_witness:
  "plain_members
     [\<lparr>project_id = 1, name = ''P'', members = [''alice'', ''bob'', ''carol''],
       tasks = [\<lparr>task_id = 1, title = ''t'', description = None, assignee = Some ''alice'',
                 due = NoDue, status = ''To-Do'', complexity = None\<rparr>,
                \<lparr>task_id = 2, title = ''u'', description = None, assignee = Some ''bob'',
                 due = NoDue, status = ''To-Do'', complexity = None\<rparr>]\<rparr>]
   \<and> memberTaskCounts (team_counts
     [\<lparr>project_id = 1, name = ''P'', members = [''alice'', ''bob'', ''carol''],
       tasks = [\<lparr>task_id = 1, title = ''t'', description = None, assignee = Some ''alice'',
                 due = NoDue, status = ''To-Do'', complexity = None\<rparr>,
                \<lparr>task_id = 2, title = ''u'', description = None, assignee = Some ''bob'',
                 due = NoDue, status = ''To-Do'', complexity = None\<rparr>]\<rparr>])
      = [(''alice'', 1), (''bob'', 1), (''carol'', 0)]
   \<and> mostActiveMember (generateTeamInsights
     [\<lparr>project_id = 1, name = ''P'', members = [''alice'', ''bob'', ''carol''],
       tasks = [\<lparr>task_id = 1, title = ''t'', description = None, assignee = Some ''alice'',
                 due = NoDue, status = ''To-Do'', complexity = None\<rparr>,
                \<lparr>task_id = 2, title = ''u'', description = None, assignee = Some ''bob'',
                 due = NoDue, status = ''To-Do'', complexity = None\<rparr>]\<rparr>]) = ''bob''
   \<and> (\<exists>i < length [''alice'', ''bob'', ''carol'']. ''bob'' = [''alice'', ''bob'', ''carol''] ! i
         \<and> (\<forall>j < length [''alice'', ''bob'', ''carol'']. count_of [(''alice'', 1), (''bob'', 1), (''carol'', 0)]
                        ([''alice'', ''bob'', ''carol''] ! j)
                    \<le> count_of [(''alice'', 1), (''bob'', 1), (''carol'', 0)]
                        ([''alice'', ''bob'', ''carol''] ! i))
         \<and> (\<forall>j. i < j \<and> j < length [''alice'', ''bob'', ''carol''] \<longrightarrow>
                count_of [(''alice'', 1), (''bob'', 1), (''carol'', 0)]
                        ([''alice'', ''bob'', ''carol''] ! j)
                < count_of [(''alice'', 1), (''bob'', 1), (''carol'', 0)]
                        ([''alice'', ''bob'', ''carol''] ! i)))"
proof -
  let ?ps = "[\<lparr>project_id = 1, name = ''P'', members = [''alice'', ''bob'', ''carol''],
       tasks = [\<lparr>task_id = 1, title = ''t'', description = None, assignee = Some ''alice'',
                 due = NoDue, status = ''To-Do'', complexity = None\<rparr>,
                \<lparr>task_id = 2, title = ''u'', description = None, assignee = Some ''bob'',
                 due = NoDue, status = ''To-Do'', complexity = None\<rparr>]\<rparr>]"
  have h: "plain_members ?ps"
    by (simp add: plain_members_def inherited_names_def)
  have c: "memberTaskCounts (team_counts ?ps) = [(''alice'', 1), (''bob'', 1), (''carol'', 0)]"
    by (simp add: team_defs assigned_def)
  have n: "memberTaskCounts (team_counts ?ps) \<noteq> []"
    by (simp add: c)
  have k: "object_keys [(''alice'', 1 :: nat), (''bob'', 1), (''carol'', 0)]
      = [''alice'', ''bob'', ''carol'']"
    by (simp add: keys_defs)
  have m: "mostActiveMember (generateTeamInsights ?ps) = ''bob''"
    unfolding mostActiveMember_eq c k by (simp add: most_active_def)
  note t = most_active_member_last_maximum [OF h n, unfolded m c k]
  show ?thesis
    by (intro conjI h c m t)
qed

section \<open>Failed requests and the histograms\<close>

lemma map_of_increment:
  "k \<noteq> ''__proto__'' \<Longrightarrow>
   map_of (increment obj l) k
     = (if k = l then Some (case map_of obj l of Some (Num n) \<Rightarrow> Num (n + 1) | _ \<Rightarrow> NaN)
        else map_of obj k)"
  by (simp add: increment_def map_of_set_prop)

lemma keys_increment:
  "set (map fst (increment obj l)) \<subseteq> insert l (set (map fst obj))"
  unfolding increment_def by (rule keys_set_prop)

lemma count_priority_label: "count_priority c ti = count_label c (priority_of (insight ti))"
  by (simp add: count_priority_def count_label_def)

lemma count_risk_label: "count_risk c ti = count_label c (risk_level_of (insight ti))"
  by (simp add: count_risk_def count_label_def)

lemma foldl_count_priority:
  "foldl count_priority c tis = foldl count_label c (map (\<lambda>ti. priority_of (insight ti)) tis)"
  by (induction tis arbitrary: c) (simp_all add: count_priority_label)

lemma foldl_count_risk:
  "foldl count_risk c tis = foldl count_label c (map (\<lambda>ti. risk_level_of (insight ti)) tis)"
  by (induction tis arbitrary: c) (simp_all add: count_risk_label)

lemma histogram_count:
  assumes "k \<noteq> []" and "k \<noteq> ''__proto__''" and "map_of c k = Some (Num n)"
  shows "map_of (foldl count_label c ls) k = Some (Num (n + length (filter (\<lambda>l. l = Some k) ls)))"
  using assms(3)
proof (induction ls arbitrary: c n)
  case Nil
  then show ?case by simp
next
  case (Cons l ls)
  show ?case
  proof (cases "l = Some k")
    case True
    then have "map_of (count_label c l) k = Some (Num (n + 1))"
      using assms(1,2) Cons.prems by (simp add: count_label_def map_of_increment)
    from Cons.IH [OF this] True show ?thesis by simp
  next
    case False
    then have "map_of (count_label c l) k = Some (Num n)"
      using assms(2) Cons.prems
      by (auto simp: count_label_def map_of_increment split: option.splits)
    from Cons.IH [OF this] False show ?thesis by simp
  qed
qed

lemma histogram_keys:
  "set (map fst (foldl count_label c ls)) \<subseteq> set (map fst c) \<union> {s. Some s \<in> set ls}"
proof (induction ls arbitrary: c)
  case Nil
  then show ?case by simp
next
  case (Cons l ls)
  have "set (map fst (count_label c l)) \<subseteq> set (map fst c) \<union> {s. Some s = l}"
    using keys_increment by (auto simp: count_label_def split: option.splits)
  with Cons.IH [of "count_label c l"] show ?case by auto
qed

lemma histogram_skips_absent:
  "foldl count_label c ls = foldl count_label c (filter (\<lambda>l. l \<noteq> None) ls)"
  by (induction ls arbitrary: c) (simp_all add: count_label_def)

lemma priorityCounts_eq:
  "priorityCounts (generateSummaryInsights tis)
     = foldl count_label [(''high'', Num 0), (''medium'', Num 0), (''low'', Num 0)]
         (map (\<lambda>ti. priority_of (insight ti)) tis)"
  by (simp add: generateSummaryInsights_def Let_def foldl_count_priority)

lemma riskCounts_eq:
  "riskCounts (generateSummaryInsights tis)
     = foldl count_label [(''overdue'', Num 0), (''critical'', Num 0), (''high'', Num 0),
                          (''medium'', Num 0), (''low'', Num 0)]
         (map (\<lambda>ti. risk_level_of (insight ti)) tis)"
  by (simp add: generateSummaryInsights_def Let_def foldl_count_risk)

lemma length_filter_map:
  "length (filter P (map f xs)) = length (filter (\<lambda>x. P (f x)) xs)"
  by (induction xs) auto

lemma priority_histogram:
  assumes "k \<in> set [''high'', ''medium'', ''low'']"
  shows "map_of (priorityCounts (generateSummaryInsights tis)) k
     = Some (Num (length (filter (\<lambda>ti. priority_of (insight ti) = Some k) tis)))"
proof -
  have "k \<noteq> []" "k \<noteq> ''__proto__''"
    "map_of [(''high'', Num 0), (''medium'', Num 0), (''low'', Num 0)] k = Some (Num 0)"
    using assms by auto
  from histogram_count [OF this] show ?thesis
    by (simp add: priorityCounts_eq length_filter_map comp_def)
qed

lemma risk_histogram:
  assumes "k \<in> set [''overdue'', ''critical'', ''high'', ''medium'', ''low'']"
  shows "map_of (riskCounts (generateSummaryInsights tis)) k
     = Some (Num (length (filter (\<lambda>ti. risk_level_of (insight ti) = Some k) tis)))"
proof -
  have "k \<noteq> []" "k \<noteq> ''__proto__''"
    "map_of [(''overdue'', Num 0), (''critical'', Num 0), (''high'', Num 0),
             (''medium'', Num 0), (''low'', Num 0)] k = Some (Num 0)"
    using assms by auto
  from histogram_count [OF this] show ?thesis
    by (simp add: riskCounts_eq length_filter_map comp_def)
qed

lemma priority_keys:
  "set (map fst (priorityCounts (generateSummaryInsights tis)))
     \<subseteq> set [''high'', ''medium'', ''low'']
       \<union> {s. \<exists>ti \<in> set tis. priority_of (insight ti) = Some s}"
  unfolding priorityCounts_eq
  using histogram_keys [of "[(''high'', Num 0), (''medium'', Num 0), (''low'', Num 0)]"
      "map (\<lambda>ti. priority_of (insight ti)) tis"]
  by fastforce

lemma risk_keys:
  "set (map fst (riskCounts (generateSummaryInsights tis)))
     \<subseteq> set [''overdue'', ''critical'', ''high'', ''medium'', ''low'']
       \<union> {s. \<exists>ti \<in> set tis. risk_level_of (insight ti) = Some s}"
  unfolding riskCounts_eq
  using histogram_keys [of "[(''overdue'', Num 0), (''critical'', Num 0), (''high'', Num 0),
                          (''medium'', Num 0), (''low'', Num 0)]"
      "map (\<lambda>ti. risk_level_of (insight ti)) tis"]
  by fastforce

lemma filter_map_comp: "filter P (map f xs) = map f (filter (\<lambda>x. P (f x)) xs)"
  by (induction xs) auto

lemma priority_skips_absent:
  "priorityCounts (generateSummaryInsights tis)
     = priorityCounts (generateSummaryInsights
         (filter (\<lambda>ti. priority_of (insight ti) \<noteq> None) tis))"
  unfolding priorityCounts_eq
  by (subst histogram_skips_absent) (simp add: filter_map_comp)

lemma risk_skips_absent:
  "riskCounts (generateSummaryInsights tis)
     = riskCounts (generateSummaryInsights
         (filter (\<lambda>ti. risk_level_of (insight ti) \<noteq> None) tis))"
  unfolding riskCounts_eq
  by (subst histogram_skips_absent) (simp add: filter_map_comp)

lemma high_counts_skip_absent:
  "highRiskTasks (generateSummaryInsights tis)
     = highRiskTasks (generateSummaryInsights
         (filter (\<lambda>ti. risk_level_of (insight ti) \<noteq> None) tis))"
  "highPriorityTasks (generateSummaryInsights tis)
     = highPriorityTasks (generateSummaryInsights
         (filter (\<lambda>ti. priority_of (insight ti) \<noteq> None) tis))"
  by (auto simp: generateSummaryInsights_def Let_def intro!: arg_cong [where f = length]
      filter_cong)

lemma resolved_nth:
  assumes "i < length ts"
  shows "map (resolve_insight fetch) (enumerate 0 ts) ! i
     = \<lparr>task = ts ! i,
        insight = (case fetch i (title (ts ! i)) (or_else (description (ts ! i)) [])
                          (due (ts ! i)) (or_else (complexity (ts ! i)) ''medium'') of
                     Inl e \<Rightarrow> None | Inr x \<Rightarrow> Some x)\<rparr>"
  using assms by (simp add: nth_enumerate_eq resolve_insight_def split: sum.splits)

lemma insights_generateProjectInsights:
  "insights (generateProjectInsights fetch projects st)
     = Some \<lparr>taskInsights = map (resolve_insight fetch) (enumerate 0 (allTasks_named projects)),
             summary = generateSummaryInsights
               (map (resolve_insight fetch) (enumerate 0 (allTasks_named projects)))\<rparr>"
  by (simp add: generateProjectInsights_def Let_def)

lemma insight_independent:
  assumes "\<forall>i. i \<noteq> j \<longrightarrow> fetch' i = fetch i"
  shows "\<forall>i < length (allTasks_named projects). i \<noteq> j \<longrightarrow>
     map_option (\<lambda>s. taskInsights s ! i) (insights (generateProjectInsights fetch' projects st))
     = map_option (\<lambda>s. taskInsights s ! i) (insights (generateProjectInsights fetch projects st))"
proof (intro allI impI)
  fix i
  assume i: "i < length (allTasks_named projects)" and ij: "i \<noteq> j"
  have "fetch' i = fetch i" using assms ij by blast
  then have "resolve_insight fetch' (i, t) = resolve_insight fetch (i, t)" for t
    by (simp add: resolve_insight_def)
  then have "map (resolve_insight fetch') (enumerate 0 (allTasks_named projects)) ! i
      = map (resolve_insight fetch) (enumerate 0 (allTasks_named projects)) ! i"
    using i by (simp add: nth_enumerate_eq)
  then show "map_option (\<lambda>s. taskInsights s ! i)
        (insights (generateProjectInsights fetch' projects st))
     = map_option (\<lambda>s. taskInsights s ! i)
        (insights (generateProjectInsights fetch projects st))"
    by (simp add: insights_generateProjectInsights)
qed

lemma list_of_two: "length xs = 2 \<Longrightarrow> xs = [xs ! 0, xs ! 1]"
proof -
  assume "length xs = 2"
  then obtain a b where "xs = [a, b]"
    by (cases xs; cases "tl xs") auto
  then show ?thesis by simp
qed

lemma priority_of_Some_iff:
  "(priority_of i = Some k)
     = (\<exists>x p. i = Some x \<and> priority x = Some p \<and> priority_label p = Some k)"
  by (auto simp: priority_of_def split: option.splits)

lemma risk_level_of_Some_iff:
  "(risk_level_of i = Some k)
     = (\<exists>x d. i = Some x \<and> deadline x = Some d \<and> risk_level d = Some k)"
  by (auto simp: risk_level_of_def split: option.splits)

lemma priority_of_present_iff:
  "(priority_of i \<noteq> None)
     = (\<exists>x p l. i = Some x \<and> priority x = Some p \<and> priority_label p = Some l)"
  by (auto simp: priority_of_def split: option.splits)

lemma risk_level_of_present_iff:
  "(risk_level_of i \<noteq> None)
     = (\<exists>x d l. i = Some x \<and> deadline x = Some d \<and> risk_level d = Some l)"
  by (auto simp: risk_level_of_def split: option.splits)

lemma high_counts_raw:
  "highRiskTasks (generateSummaryInsights tis)
     = length (filter (\<lambda>ti.
         (\<exists>x d. insight ti = Some x \<and> deadline x = Some d \<and> risk_level d = Some ''overdue'') \<or>
         (\<exists>x d. insight ti = Some x \<and> deadline x = Some d \<and> risk_level d = Some ''critical''))
         tis)"
  "highPriorityTasks (generateSummaryInsights tis)
     = length (filter (\<lambda>ti.
         \<exists>x p. insight ti = Some x \<and> priority x = Some p \<and> priority_label p = Some ''high'')
         tis)"
  by (simp_all add: generateSummaryInsights_def Let_def risk_level_of_Some_iff
      priority_of_Some_iff)

text \<open>
  C4. generateProjectInsights records one entry per task, in the order of the tasks;
  the entry of a task whose request fails carries a null insight, every other entry
  carries the response of its own request, so changing the outcome of the request of
  one task changes no other entry. In the summary, an entry adds to a priority (risk)
  label only if its insight is not null, the insight has a priority (deadline) object
  and that object carries the label: the count stored under each initial label is the
  number of such entries, no key exists besides the initial labels and the labels so
  carried, removing every entry with a null insight, a missing object or a missing
  label changes neither histogram, and the high-risk and high-priority counts are the
  numbers of entries that carry overdue or critical, respectively high.
\<close>

theorem failed_insight_isolated:
  "(\<exists>s. insights (generateProjectInsights fetch projects st) = Some s
       \<and> length (taskInsights s) = length (allTasks_named projects)
       \<and> (\<forall>i < length (allTasks_named projects).
             task (taskInsights s ! i) = allTasks_named projects ! i
             \<and> insight (taskInsights s ! i)
                 = (case fetch i (title (allTasks_named projects ! i))
                           (or_else (description (allTasks_named projects ! i)) [])
                           (due (allTasks_named projects ! i))
                           (or_else (complexity (allTasks_named projects ! i)) ''medium'') of
                      Inl e \<Rightarrow> None | Inr x \<Rightarrow> Some x)))
   \<and> (\<forall>k \<in> set [''high'', ''medium'', ''low''].
         map_of (priorityCounts (generateSummaryInsights tis)) k
           = Some (Num (length (filter (\<lambda>ti.
               \<exists>x p. insight ti = Some x \<and> priority x = Some p \<and> priority_label p = Some k)
               tis))))
   \<and> (\<forall>k \<in> set [''overdue'', ''critical'', ''high'', ''medium'', ''low''].
         map_of (riskCounts (generateSummaryInsights tis)) k
           = Some (Num (length (filter (\<lambda>ti.
               \<exists>x d. insight ti = Some x \<and> deadline x = Some d \<and> risk_level d = Some k)
               tis))))
   \<and> set (map fst (priorityCounts (generateSummaryInsights tis)))
         \<subseteq> set [''high'', ''medium'', ''low'']
           \<union> {s. \<exists>ti \<in> set tis.
                 \<exists>x p. insight ti = Some x \<and> priority x = Some p \<and> priority_label p = Some s}
   \<and> set (map fst (riskCounts (generateSummaryInsights tis)))
         \<subseteq> set [''overdue'', ''critical'', ''high'', ''medium'', ''low'']
           \<union> {s. \<exists>ti \<in> set tis.
                 \<exists>x d. insight ti = Some x \<and> deadline x = Some d \<and> risk_level d = Some s}
   \<and> priorityCounts (generateSummaryInsights tis)
         = priorityCounts (generateSummaryInsights
             (filter (\<lambda>ti. \<exists>x p l. insight ti = Some x \<and> priority x = Some p \<and>
                                   priority_label p = Some l) tis))
   \<and> riskCounts (generateSummaryInsights tis)
         = riskCounts (generateSummaryInsights
             (filter (\<lambda>ti. \<exists>x d l. insight ti = Some x \<and> deadline x = Some d \<and>
                                   risk_level d = Some l) tis))
   \<and> highRiskTasks (generateSummaryInsights tis)
         = length (filter (\<lambda>ti.
             (\<exists>x d. insight ti = Some x \<and> deadline x = Some d \<and>
                    risk_level d = Some ''overdue'') \<or>
             (\<exists>x d. insight ti = Some x \<and> deadline x = Some d \<and>
                    risk_level d = Some ''critical'')) tis)
   \<and> highPriorityTasks (generateSummaryInsights tis)
         = length (filter (\<lambda>ti.
             \<exists>x p. insight ti = Some x \<and> priority x = Some p \<and>
                   priority_label p = Some ''high'') tis)
   \<and> ((\<forall>i. i \<noteq> j \<longrightarrow> fetch' i = fetch i) \<longrightarrow>
       (\<forall>i < length (allTasks_named projects). i \<noteq> j \<longrightarrow>
          map_option (\<lambda>s. taskInsights s ! i)
            (insights (generateProjectInsights fetch' projects st))
          = map_option (\<lambda>s. taskInsights s ! i)
            (insights (generateProjectInsights fetch projects st))))"
proof -
  let ?ts = "allTasks_named projects"
  have ind: "(\<forall>i. i \<noteq> j \<longrightarrow> fetch' i = fetch i) \<longrightarrow>
       (\<forall>i < length (allTasks_named projects). i \<noteq> j \<longrightarrow>
          map_option (\<lambda>s. taskInsights s ! i)
            (insights (generateProjectInsights fetch' projects st))
          = map_option (\<lambda>s. taskInsights s ! i)
            (insights (generateProjectInsights fetch projects st)))"
    by (rule impI) (rule insight_independent)
  let ?s = "\<lparr>taskInsights = map (resolve_insight fetch) (enumerate 0 ?ts),
             summary = generateSummaryInsights (map (resolve_insight fetch) (enumerate 0 ?ts))\<rparr>"
  have "insights (generateProjectInsights fetch projects st) = Some ?s"
    by (rule insights_generateProjectInsights)
  moreover have "length (taskInsights ?s) = length ?ts" by simp
  moreover have "\<forall>i < length ?ts.
             task (taskInsights ?s ! i) = ?ts ! i
             \<and> insight (taskInsights ?s ! i)
                 = (case fetch i (title (?ts ! i)) (or_else (description (?ts ! i)) [])
                           (due (?ts ! i)) (or_else (complexity (?ts ! i)) ''medium'') of
                      Inl e \<Rightarrow> None | Inr x \<Rightarrow> Some x)"
    using resolved_nth [of _ ?ts fetch] by simp
  ultimately have first: "\<exists>s. insights (generateProjectInsights fetch projects st) = Some s
       \<and> length (taskInsights s) = length ?ts
       \<and> (\<forall>i < length ?ts.
             task (taskInsights s ! i) = ?ts ! i
             \<and> insight (taskInsights s ! i)
                 = (case fetch i (title (?ts ! i)) (or_else (description (?ts ! i)) [])
                           (due (?ts ! i)) (or_else (complexity (?ts ! i)) ''medium'') of
                      Inl e \<Rightarrow> None | Inr x \<Rightarrow> Some x))"
    by blast
  note ph = priority_histogram [of _ tis, unfolded priority_of_Some_iff]
  note rh = risk_histogram [of _ tis, unfolded risk_level_of_Some_iff]
  note pk = priority_keys [of tis, unfolded priority_of_Some_iff]
  note rk = risk_keys [of tis, unfolded risk_level_of_Some_iff]
  note ps = priority_skips_absent [of tis, unfolded priority_of_present_iff]
  note rs = risk_skips_absent [of tis, unfolded risk_level_of_present_iff]
  show ?thesis
    by (intro conjI ballI first ph rh pk rk ps rs high_counts_raw ind)
qed

theorem failed_insight_isolated_witness:
  "(\<exists>s. insights (generateProjectInsights
            (\<lambda>i t d dd c. if i = (0::nat) then Inl NetworkError
               else Inr \<lparr>priority = Some \<lparr>priority_label = Some ''high''\<rparr>, deadline = None\<rparr>)
            [\<lparr>project_id = 1, name = ''P'', members = [],
              tasks = [\<lparr>task_id = 1, title = ''a'', description = None, assignee = None,
                        due = NoDue, status = ''Done'', complexity = None\<rparr>,
                       \<lparr>task_id = 2, title = ''b'', description = None, assignee = None,
                        due = NoDue, status = ''To-Do'', complexity = None\<rparr>]\<rparr>]
            initial_dashboard) = Some s
        \<and> map insight (taskInsights s)
            = [None, Some \<lparr>priority = Some \<lparr>priority_label = Some ''high''\<rparr>, deadline = None\<rparr>])
   \<and> map_of (priorityCounts (generateSummaryInsights
        [\<lparr>task = \<lparr>task_id = 1, title = ''a'', description = None, assignee = None,
                   due = NoDue, status = ''Done'', complexity = None, projectName = ''P''\<rparr>,
          insight = None\<rparr>,
         \<lparr>task = \<lparr>task_id = 2, title = ''b'', description = None, assignee = None,
                   due = NoDue, status = ''To-Do'', complexity = None, projectName = ''P''\<rparr>,
          insight = Some \<lparr>priority = None, deadline = None\<rparr>\<rparr>,
         \<lparr>task = \<lparr>task_id = 3, title = ''c'', description = None, assignee = None,
                   due = NoDue, status = ''To-Do'', complexity = None, projectName = ''P''\<rparr>,
          insight = Some \<lparr>priority = Some \<lparr>priority_label = Some ''high''\<rparr>,
                          deadline = None\<rparr>\<rparr>])) ''high'' = Some (Num 1)
   \<and> map_of (riskCounts (generateSummaryInsights
        [\<lparr>task = \<lparr>task_id = 1, title = ''a'', description = None, assignee = None,
                   due = NoDue, status = ''Done'', complexity = None, projectName = ''P''\<rparr>,
          insight = None\<rparr>,
         \<lparr>task = \<lparr>task_id = 2, title = ''b'', description = None, assignee = None,
                   due = NoDue, status = ''To-Do'', complexity = None, projectName = ''P''\<rparr>,
          insight = Some \<lparr>priority = None, deadline = None\<rparr>\<rparr>,
         \<lparr>task = \<lparr>task_id = 3, title = ''c'', description = None, assignee = None,
                   due = NoDue, status = ''To-Do'', complexity = None, projectName = ''P''\<rparr>,
          insight = Some \<lparr>priority = Some \<lparr>priority_label = Some ''high''\<rparr>,
                          deadline = None\<rparr>\<rparr>])) ''overdue'' = Some (Num 0)
   \<and> highRiskTasks (generateSummaryInsights
        [\<lparr>task = \<lparr>task_id = 1, title = ''a'', description = None, assignee = None,
                   due = NoDue, status = ''Done'', complexity = None, projectName = ''P''\<rparr>,
          insight = None\<rparr>,
         \<lparr>task = \<lparr>task_id = 2, title = ''b'', description = None, assignee = None,
                   due = NoDue, status = ''To-Do'', complexity = None, projectName = ''P''\<rparr>,
          insight = Some \<lparr>priority = None, deadline = None\<rparr>\<rparr>,
         \<lparr>task = \<lparr>task_id = 3, title = ''c'', description = None, assignee = None,
                   due = NoDue, status = ''To-Do'', complexity = None, projectName = ''P''\<rparr>,
          insight = Some \<lparr>priority = Some \<lparr>priority_label = Some ''high''\<rparr>,
                          deadline = None\<rparr>\<rparr>]) = 0
   \<and> highPriorityTasks (generateSummaryInsights
        [\<lparr>task = \<lparr>task_id = 1, title = ''a'', description = None, assignee = None,
                   due = NoDue, status = ''Done'', complexity = None, projectName = ''P''\<rparr>,
          insight = None\<rparr>,
         \<lparr>task = \<lparr>task_id = 2, title = ''b'', description = None, assignee = None,
                   due = NoDue, status = ''To-Do'', complexity = None, projectName = ''P''\<rparr>,
          insight = Some \<lparr>priority = None, deadline = None\<rparr>\<rparr>,
         \<lparr>task = \<lparr>task_id = 3, title = ''c'', description = None, assignee = None,
                   due = NoDue, status = ''To-Do'', complexity = None, projectName = ''P''\<rparr>,
          insight = Some \<lparr>priority = Some \<lparr>priority_label = Some ''high''\<rparr>,
                          deadline = None\<rparr>\<rparr>]) = 1"
proof -
  let ?f = "\<lambda>i t d dd c. if i = (0::nat) then Inl NetworkError
               else Inr \<lparr>priority = Some \<lparr>priority_label = Some ''high''\<rparr>, deadline = None\<rparr>"
  let ?ps = "[\<lparr>project_id = 1, name = ''P'', members = [],
              tasks = [\<lparr>task_id = 1, title = ''a'', description = None, assignee = None,
                        due = NoDue, status = ''Done'', complexity = None\<rparr>,
                       \<lparr>task_id = 2, title = ''b'', description = None, assignee = None,
                        due = NoDue, status = ''To-Do'', complexity = None\<rparr>]\<rparr>]"
  let ?tis = "[\<lparr>task = \<lparr>task_id = 1, title = ''a'', description = None, assignee = None,
                   due = NoDue, status = ''Done'', complexity = None, projectName = ''P''\<rparr>,
          insight = None\<rparr>,
         \<lparr>task = \<lparr>task_id = 2, title = ''b'', description = None, assignee = None,
                   due = NoDue, status = ''To-Do'', complexity = None, projectName = ''P''\<rparr>,
          insight = Some \<lparr>priority = None, deadline = None\<rparr>\<rparr>,
         \<lparr>task = \<lparr>task_id = 3, title = ''c'', description = None, assignee = None,
                   due = NoDue, status = ''To-Do'', complexity = None, projectName = ''P''\<rparr>,
          insight = Some \<lparr>priority = Some \<lparr>priority_label = Some ''high''\<rparr>,
                          deadline = None\<rparr>\<rparr>]"
  note t = failed_insight_isolated [of ?f ?ps initial_dashboard ?tis]
  note t2 = t [THEN conjunct2]
  note t3 = t2 [THEN conjunct2]
  note t8 = t3 [THEN conjunct2, THEN conjunct2, THEN conjunct2, THEN conjunct2, THEN conjunct2]
  have at: "allTasks_named ?ps =
      [\<lparr>task_id = 1, title = ''a'', description = None, assignee = None,
        due = NoDue, status = ''Done'', complexity = None, projectName = ''P''\<rparr>,
       \<lparr>task_id = 2, title = ''b'', description = None, assignee = None,
        due = NoDue, status = ''To-Do'', complexity = None, projectName = ''P''\<rparr>]"
    by (simp add: allTasks_named_def)
  from t [THEN conjunct1] obtain s
    where s1: "insights (generateProjectInsights ?f ?ps initial_dashboard) = Some s"
      and s2: "length (taskInsights s) = length (allTasks_named ?ps)"
      and s3: "\<forall>i < length (allTasks_named ?ps).
             task (taskInsights s ! i) = allTasks_named ?ps ! i
             \<and> insight (taskInsights s ! i)
                 = (case ?f i (title (allTasks_named ?ps ! i))
                           (or_else (description (allTasks_named ?ps ! i)) [])
                           (due (allTasks_named ?ps ! i))
                           (or_else (complexity (allTasks_named ?ps ! i)) ''medium'') of
                      Inl e \<Rightarrow> None | Inr x \<Rightarrow> Some x)"
    by blast
  have l: "length (taskInsights s) = 2" using s2 by (simp add: at)
  have i0: "insight (taskInsights s ! 0) = None"
    using s3 [rule_format, of 0] by (simp add: at)
  have i1: "insight (taskInsights s ! 1)
       = Some \<lparr>priority = Some \<lparr>priority_label = Some ''high''\<rparr>, deadline = None\<rparr>"
    using s3 [rule_format, of 1] by (simp add: at)
  have m: "map insight (taskInsights s)
            = [None, Some \<lparr>priority = Some \<lparr>priority_label = Some ''high''\<rparr>, deadline = None\<rparr>]"
  proof -
    have "taskInsights s = [taskInsights s ! 0, taskInsights s ! 1]"
      using l by (rule list_of_two)
    then have "map insight (taskInsights s)
        = [insight (taskInsights s ! 0), insight (taskInsights s ! 1)]"
      by (metis list.simps(8,9))
    then show ?thesis by (simp only: i0 i1)
  qed
  have h1: "map_of (priorityCounts (generateSummaryInsights ?tis)) ''high'' = Some (Num 1)"
    using t2 [THEN conjunct1, rule_format, of "''high''"] by simp
  have h2: "map_of (riskCounts (generateSummaryInsights ?tis)) ''overdue'' = Some (Num 0)"
    using t3 [THEN conjunct1, rule_format, of "''overdue''"] by simp
  have h3: "highRiskTasks (generateSummaryInsights ?tis) = 0"
    using t8 [THEN conjunct1] by simp
  have h4: "highPriorityTasks (generateSummaryInsights ?tis) = 1"
    using t8 [THEN conjunct2, THEN conjunct1] by simp
  have "insights (generateProjectInsights ?f ?ps initial_dashboard) = Some s
        \<and> map insight (taskInsights s)
            = [None, Some \<lparr>priority = Some \<lparr>priority_label = Some ''high''\<rparr>, deadline = None\<rparr>]"
    using s1 m by (rule conjI)
  then have ex: "\<exists>s. insights (generateProjectInsights ?f ?ps initial_dashboard) = Some s
        \<and> map insight (taskInsights s)
            = [None, Some \<lparr>priority = Some \<lparr>priority_label = Some ''high''\<rparr>, deadline = None\<rparr>]"
    by (rule exI [of _ s])
  show ?thesis
    by (intro conjI ex h1 h2 h3 h4)
qed

section \<open>Input that violates the data model\<close>

text \<open>
  C8, as stated, fails. A project with two tasks of the same id violates the
  invariants, yet the run is not aborted: generateProjectInsights stores an entry for
  both tasks and a summary that counts 2 tasks.
\<close>

theorem no_validation_counterexample:
  "\<not> valid_projects
     [\<lparr>project_id = 1, name = ''P'', members = [],
       tasks = [\<lparr>task_id = 1, title = ''a'', description = None, assignee = None,
                 due = NoDue, status = ''Done'', complexity = None\<rparr>,
                \<lparr>task_id = 1, title = ''b'', description = None, assignee = None,
                 due = NoDue, status = ''To-Do'', complexity = None\<rparr>]\<rparr>]
   \<and> generateProjectInsights offline
     [\<lparr>project_id = 1, name = ''P'', members = [],
       tasks = [\<lparr>task_id = 1, title = ''a'', description = None, assignee = None,
                 due = NoDue, status = ''Done'', complexity = None\<rparr>,
                \<lparr>task_id = 1, title = ''b'', description = None, assignee = None,
                 due = NoDue, status = ''To-Do'', complexity = None\<rparr>]\<rparr>] initial_dashboard
    = \<lparr>loading = False,
       insights = Some
         \<lparr>taskInsights =
            [\<lparr>task = \<lparr>task_id = 1, title = ''a'', description = None, assignee = None,
                       due = NoDue, status = ''Done'', complexity = None, projectName = ''P''\<rparr>,
              insight = None\<rparr>,
             \<lparr>task = \<lparr>task_id = 1, title = ''b'', description = None, assignee = None,
                       due = NoDue, status = ''To-Do'', complexity = None, projectName = ''P''\<rparr>,
              insight = None\<rparr>],
          summary =
            \<lparr>totalTasks = 2, completedTasks = 1, inProgressTasks = 0, todoTasks = 1,
             completionRate = Fixed (Tenths 500),
             priorityCounts = [(''high'', Num 0), (''medium'', Num 0), (''low'', Num 0)],
             riskCounts = [(''overdue'', Num 0), (''critical'', Num 0), (''high'', Num 0),
                           (''medium'', Num 0), (''low'', Num 0)],
             highRiskTasks = 0, highPriorityTasks = 0, urgentTasks = 0\<rparr>\<rparr>,
       aiRecommendations = [], riskAlerts = [], productivityInsights = None,
       teamInsights = None\<rparr>"
  by (simp add: valid_projects_def valid_project_def generateProjectInsights_def Let_def
      allTasks_named_def resolve_insight_def offline_def initial_dashboard_def
      generateSummaryInsights_def count_priority_def count_risk_def priority_of_def
      risk_level_of_def count_div_def)

text \<open>
  C8, amended. Neither entry point checks the Task and Project invariants, and no input
  aborts a run: for every project list generateProjectInsights stores one insight entry
  per task and a summary over all of them and clears the loading flag, and
  generateAdvancedAIInsights stores recommendations, alerts, productivity and team
  results computed from all tasks.
\<close>

theorem entry_points_never_abort:
  "(\<exists>s. insights (generateProjectInsights fetch projects st) = Some s
        \<and> map task (taskInsights s) = allTasks_named projects
        \<and> totalTasks (summary s) = length (concat (map tasks projects)))
   \<and> loading (generateProjectInsights fetch projects st) = False
   \<and> aiRecommendations (generateAdvancedAIInsights today fetch projects st)
       = generateAIRecommendations today (allTasks_located projects)
   \<and> riskAlerts (generateAdvancedAIInsights today fetch projects st)
       = generateRiskAlerts fetch (allTasks_located projects)
   \<and> productivityInsights (generateAdvancedAIInsights today fetch projects st)
       = Some (generateProductivityInsights (allTasks_located projects))
   \<and> teamInsights (generateAdvancedAIInsights today fetch projects st)
       = Some (generateTeamInsights projects)
   \<and> length (allTasks_located projects) = length (concat (map tasks projects))"
proof -
  let ?ts = "allTasks_named projects"
  let ?tis = "map (resolve_insight fetch) (enumerate 0 ?ts)"
  have task_res: "task (resolve_insight fetch it) = snd it" for it
    by (cases it) (simp add: resolve_insight_def split: sum.splits)
  have "task \<circ> resolve_insight fetch = snd"
    by (rule ext) (simp add: task_res)
  then have a: "map task ?tis = ?ts" by simp
  have len: "length ?ts = length (concat (map tasks projects))"
    unfolding allTasks_named_def by (induction projects) simp_all
  have len': "length (allTasks_located projects) = length (concat (map tasks projects))"
    unfolding allTasks_located_def by (induction projects) simp_all
  have b: "totalTasks (generateSummaryInsights ?tis) = length (concat (map tasks projects))"
    using len by (simp add: generateSummaryInsights_def Let_def)
  have first: "\<exists>s. insights (generateProjectInsights fetch projects st) = Some s
        \<and> map task (taskInsights s) = allTasks_named projects
        \<and> totalTasks (summary s) = length (concat (map tasks projects))"
    unfolding insights_generateProjectInsights using a b by simp
  have rest: "loading (generateProjectInsights fetch projects st) = False"
    "aiRecommendations (generateAdvancedAIInsights today fetch projects st)
       = generateAIRecommendations today (allTasks_located projects)"
    "riskAlerts (generateAdvancedAIInsights today fetch projects st)
       = generateRiskAlerts fetch (allTasks_located projects)"
    "productivityInsights (generateAdvancedAIInsights today fetch projects st)
       = Some (generateProductivityInsights (allTasks_located projects))"
    "teamInsights (generateAdvancedAIInsights today fetch projects st)
       = Some (generateTeamInsights projects)"
    by (simp_all add: generateProjectInsights_def generateAdvancedAIInsights_def Let_def)
  show ?thesis
    using first rest len' by blast
qed

section \<open>Member lists\<close>

text \<open>
  C9. addMember appends the entered email to the member list of the project only when
  the email is not already a member (and is not empty); in every other case, also when
  the dialog is cancelled, the state is left as it was. A state whose member lists are
  free of duplicates therefore stays free of duplicates.
\<close>

theorem addMember_no_duplicates:
  "(e \<noteq> [] \<and> e \<notin> set (members project) \<longrightarrow>
      addMember (Some e) project projects =
        map (\<lambda>p. if project_id p = project_id project
                  then project\<lparr>members := members project @ [e]\<rparr> else p) projects)
   \<and> (e = [] \<or> e \<in> set (members project) \<longrightarrow>
      addMember (Some e) project projects = projects)
   \<and> addMember None project projects = projects
   \<and> (distinct (members project) \<and> (\<forall>p \<in> set projects. distinct (members p)) \<longrightarrow>
      (\<forall>p \<in> set (addMember email project projects). distinct (members p)))"
  by (cases email) (auto simp: addMember_def updateProject_def)

theorem addMember_no_duplicates_witness:
  "addMember (Some ''carol'')
      \<lparr>project_id = 1, name = ''P'', members = [''alice'', ''bob''], tasks = []\<rparr>
      [\<lparr>project_id = 1, name = ''P'', members = [''alice'', ''bob''], tasks = []\<rparr>]
    = [\<lparr>project_id = 1, name = ''P'', members = [''alice'', ''bob'', ''carol''], tasks = []\<rparr>]
   \<and> addMember (Some ''bob'')
      \<lparr>project_id = 1, name = ''P'', members = [''alice'', ''bob''], tasks = []\<rparr>
      [\<lparr>project_id = 1, name = ''P'', members = [''alice'', ''bob''], tasks = []\<rparr>]
    = [\<lparr>project_id = 1, name = ''P'', members = [''alice'', ''bob''], tasks = []\<rparr>]
   \<and> list_all (\<lambda>p. distinct (members p)) (addMember (Some ''carol'')
      \<lparr>project_id = 1, name = ''P'', members = [''alice'', ''bob''], tasks = []\<rparr>
      [\<lparr>project_id = 1, name = ''P'', members = [''alice'', ''bob''], tasks = []\<rparr>])"
  using addMember_no_duplicates [of "''carol''"
      "\<lparr>project_id = 1, name = ''P'', members = [''alice'', ''bob''], tasks = []\<rparr>"
      "[\<lparr>project_id = 1, name = ''P'', members = [''alice'', ''bob''], tasks = []\<rparr>]"
      "Some ''carol''"]
    addMember_no_duplicates [of "''bob''"
      "\<lparr>project_id = 1, name = ''P'', members = [''alice'', ''bob''], tasks = []\<rparr>"
      "[\<lparr>project_id = 1, name = ''P'', members = [''alice'', ''bob''], tasks = []\<rparr>]"
      "Some ''bob''"]
  by (simp add: list_all_iff)

end
